theory Spec2Isabelle
  imports Main "HOL-Library.Word" "HOL-Library.Sublist" "HOL-Library.List_Lexorder"
begin

section \<open>JavaScript strings\<close>

text \<open>
  A JavaScript string is a sequence of 16-bit code units. Regular expressions without the
  \<^verbatim>\<open>u\<close> flag, \<^verbatim>\<open>indexOf\<close>, \<^verbatim>\<open>split\<close> and string comparison all work on code units.
\<close>

type_synonym jschar = "16 word"
type_synonym jsstring = "jschar list"

text \<open>An ASCII literal as a JavaScript string.\<close>

definition js :: "string \<Rightarrow> jsstring" where
  "js s = map (\<lambda>c. of_nat (of_char c)) s"

definition BACKSLASH :: jschar where "BACKSLASH = 0x5C"
definition DOLLAR :: jschar where "DOLLAR = 0x24"
definition SNOWMAN :: jschar where "SNOWMAN = 0x2603"
definition DQUOTE :: jschar where "DQUOTE = 0x22"
definition COMMA :: jschar where "COMMA = 0x2C"
definition LF :: jschar where "LF = 0x0A"

text \<open>\<^verbatim>\<open>const LINE_BREAK = '\n\n'\<close>\<close>

definition LINE_BREAK :: jsstring where
  "LINE_BREAK = [LF, LF]"

definition MATH_PH :: jsstring where "MATH_PH = js ''__MATH__''"
definition GRAPHIE_PH :: jsstring where "GRAPHIE_PH = js ''__GRAPHIE__''"
definition WIDGET_PH :: jsstring where "WIDGET_PH = js ''__WIDGET__''"
definition TEXT_PH :: jsstring where "TEXT_PH = js ''__TEXT__''"

text \<open>What \<^verbatim>\<open>String(undefined)\<close> and a template literal give for \<^verbatim>\<open>undefined\<close>.\<close>

definition UNDEFINED :: jsstring where "UNDEFINED = js ''undefined''"

definition toStr :: "jsstring option \<Rightarrow> jsstring" where
  "toStr v = (case v of None \<Rightarrow> UNDEFINED | Some s \<Rightarrow> s)"

section \<open>Regular expressions\<close>

text \<open>
  The patterns of the program use literal characters, character classes, sequence,
  alternation and the greedy quantifiers \<^verbatim>\<open>*\<close> and \<^verbatim>\<open>+\<close>. \<open>ms r s\<close> lists the remainders
  of \<open>s\<close> after every way \<open>r\<close> can match a prefix of \<open>s\<close>, in the order in which the
  backtracking matcher of ECMAScript tries them: the left alternative before the right one,
  one more iteration of a greedy quantifier before stopping. An iteration that consumes
  nothing is rejected, as RepeatMatcher does.
\<close>

datatype re = Eps | Atom "jschar \<Rightarrow> bool" | Seq re re | Alt re re | Star re

fun ms :: "re \<Rightarrow> jsstring \<Rightarrow> jsstring list" where
  "ms Eps s = [s]"
| "ms (Atom p) s = (case s of [] \<Rightarrow> [] | c # cs \<Rightarrow> if p c then [cs] else [])"
| "ms (Seq a b) s = concat (map (ms b) (ms a s))"
| "ms (Alt a b) s = ms a s @ ms b s"
| "ms (Star a) s =
     concat (map (\<lambda>r. if length r < length s then ms (Star a) r else []) (ms a s)) @ [s]"

text \<open>The equation of the quantifier is used where a proof asks for it.\<close>

declare ms.simps(5) [simp del]

definition chr :: "jschar \<Rightarrow> re" where
  "chr c = Atom (\<lambda>x. x = c)"

definition notchr :: "jschar \<Rightarrow> re" where
  "notchr c = Atom (\<lambda>x. x \<noteq> c)"

definition oneof :: "jschar list \<Rightarrow> re" where
  "oneof cs = Atom (\<lambda>x. x \<in> set cs)"

definition lit :: "jsstring \<Rightarrow> re" where
  "lit s = foldr (\<lambda>c r. Seq (chr c) r) s Eps"

definition Plus :: "re \<Rightarrow> re" where
  "Plus a = Seq a (Star a)"

text \<open>\<^verbatim>\<open>const MATH_REGEX = /\$(\\\$|[^\$])+\$/g\<close>\<close>

definition MATH_REGEX :: re where
  "MATH_REGEX =
     Seq (chr DOLLAR)
       (Seq (Plus (Alt (Seq (chr BACKSLASH) (chr DOLLAR)) (notchr DOLLAR))) (chr DOLLAR))"

text \<open>\<^verbatim>\<open>const GRAPHIE_REGEX = /\!\[\]\([^)]+\)/g\<close>\<close>

definition GRAPHIE_REGEX :: re where
  "GRAPHIE_REGEX = Seq (lit (js ''![]('')) (Seq (Plus (notchr 0x29)) (chr 0x29))"

text \<open>\<^verbatim>\<open>const WIDGET_REGEX = /\[\[[\u2603][^\]]+\]\]/g\<close>\<close>

definition WIDGET_REGEX :: re where
  "WIDGET_REGEX =
     Seq (lit (js ''[['')) (Seq (oneof [SNOWMAN]) (Seq (Plus (notchr 0x5D)) (lit (js '']]''))))"

text \<open>
  \<^verbatim>\<open>const TEXT_REGEX = /\\text{([^}]*)}/g\<close>. Its one capture group is the match without
  the six code units of \<^verbatim>\<open>\text{\<close> in front and the closing brace behind.
\<close>

definition TEXT_OPEN :: jsstring where
  "TEXT_OPEN = BACKSLASH # js ''text{''"

definition TEXT_REGEX :: re where
  "TEXT_REGEX = Seq (lit TEXT_OPEN) (Seq (Star (notchr 0x7D)) (chr 0x7D))"

definition group1 :: "jsstring \<Rightarrow> jsstring" where
  "group1 m = butlast (drop 6 m)"

text \<open>\<^verbatim>\<open>/__MATH__[\t ]*__WIDGET__/g\<close>\<close>

definition MATH_WIDGET_REGEX :: re where
  "MATH_WIDGET_REGEX = Seq (lit MATH_PH) (Seq (Star (oneof [0x09, 0x20])) (lit WIDGET_PH))"

text \<open>\<^verbatim>\<open>/\\sin/g\<close>\<close>

definition SIN :: jsstring where
  "SIN = BACKSLASH # js ''sin''"

text \<open>The replacement \<^verbatim>\<open>'\\operatorname\{sen\}'\<close>: the escapes before the braces are idle.\<close>

definition OPERATORNAME_SEN :: jsstring where
  "OPERATORNAME_SEN = BACKSLASH # js ''operatorname{sen}''"

text \<open>
  RegExpBuiltinExec at one start position: the length of the first match the backtracking
  finds there. None of the patterns has an assertion that looks behind the start position, so
  matching at an index of a string is matching at the start of the rest of the string.
\<close>

definition exec_at :: "re \<Rightarrow> jsstring \<Rightarrow> nat option" where
  "exec_at r s = (case ms r s of [] \<Rightarrow> None | x # _ \<Rightarrow> Some (length s - length x))"

text \<open>
  \<^verbatim>\<open>str.match(regex) || []\<close> for a global regex: the start position moves right until a
  match is found; the search goes on behind the match, one code unit further when the match
  is empty.
\<close>

fun matchAll :: "re \<Rightarrow> jsstring \<Rightarrow> jsstring list" where
  "matchAll r [] = (case exec_at r [] of None \<Rightarrow> [] | Some _ \<Rightarrow> [[]])"
| "matchAll r (c # cs) =
     (case exec_at r (c # cs) of
        None \<Rightarrow> matchAll r cs
      | Some n \<Rightarrow> take n (c # cs) # matchAll r (drop (max n 1) (c # cs)))"

text \<open>
  \<^verbatim>\<open>str.replace(regex, callback)\<close> for a global regex. The callbacks of the program read and
  advance a counter of the enclosing function: the counter is the state \<open>st\<close>, handed to the
  callback with the match and returned updated. The value the callback returns is converted
  to a string.
\<close>

fun replaceCb :: "re \<Rightarrow> (jsstring \<Rightarrow> 's \<Rightarrow> jsstring \<times> 's) \<Rightarrow> jsstring \<Rightarrow> 's \<Rightarrow> jsstring \<times> 's" where
  "replaceCb r f [] st = (case exec_at r [] of None \<Rightarrow> ([], st) | Some _ \<Rightarrow> f [] st)"
| "replaceCb r f (c # cs) st =
     (case exec_at r (c # cs) of
        None \<Rightarrow> (case replaceCb r f cs st of (rest, st') \<Rightarrow> (c # rest, st'))
      | Some n \<Rightarrow>
          (case f (take n (c # cs)) st of (x, st') \<Rightarrow>
             (case replaceCb r f (drop (max n 1) (c # cs)) st' of (rest, st'') \<Rightarrow>
                (x @ take (1 - n) [c] @ rest, st''))))"

text \<open>
  \<^verbatim>\<open>str.replace(regex, replacement)\<close> with a replacement string that has no \<^verbatim>\<open>$\<close> in it
  (all replacement strings written in the program are such).
\<close>

definition replaceAll :: "re \<Rightarrow> jsstring \<Rightarrow> jsstring \<Rightarrow> jsstring" where
  "replaceAll r x s = fst (replaceCb r (\<lambda>m u. (x, u)) s ())"

text \<open>\<^verbatim>\<open>regex.test(str)\<close> for a regex without flags: is there a match anywhere.\<close>

fun test :: "re \<Rightarrow> jsstring \<Rightarrow> bool" where
  "test r [] = (exec_at r [] \<noteq> None)"
| "test r (c # cs) = (exec_at r (c # cs) \<noteq> None \<or> test r cs)"

text \<open>
  \<^verbatim>\<open>/^(...)$/.test(str)\<close> without the \<^verbatim>\<open>m\<close> flag: some way of matching at the start ends
  at the end of the string.
\<close>

definition testWhole :: "re \<Rightarrow> jsstring \<Rightarrow> bool" where
  "testWhole r s = ([] \<in> set (ms r s))"

text \<open>\<^verbatim>\<open>str.indexOf(searchString)\<close>: the first index where the search string starts, or -1.\<close>

fun strIndexOf :: "jsstring \<Rightarrow> jsstring \<Rightarrow> int" where
  "strIndexOf [] p = (if p = [] then 0 else -1)"
| "strIndexOf (c # cs) p =
     (if prefix p (c # cs) then 0
      else (let i = strIndexOf cs p in if i = -1 then -1 else i + 1))"

text \<open>\<^verbatim>\<open>array.indexOf(x)\<close> on an array of strings: strict equality, first index or -1.\<close>

fun indexOf :: "jsstring list \<Rightarrow> jsstring \<Rightarrow> int" where
  "indexOf [] x = -1"
| "indexOf (y # ys) x =
     (if y = x then 0 else (let i = indexOf ys x in if i = -1 then -1 else i + 1))"

text \<open>\<^verbatim>\<open>str.split(LINE_BREAK)\<close>: cut at each occurrence of the separator, left to right.\<close>

fun split :: "jsstring \<Rightarrow> jsstring list" where
  "split [] = [[]]"
| "split (c # cs) =
     (if prefix LINE_BREAK (c # cs) then [] # split (drop 1 cs)
      else (case split cs of [] \<Rightarrow> [[c]] | l # ls \<Rightarrow> (c # l) # ls))"

text \<open>\<^verbatim>\<open>array.join(sep)\<close> on an array of strings.\<close>

fun join :: "jsstring \<Rightarrow> jsstring list \<Rightarrow> jsstring" where
  "join sep [] = []"
| "join sep [x] = x"
| "join sep (x # y # ys) = x @ sep @ join sep (y # ys)"

text \<open>
  \<^verbatim>\<open>str.trim()\<close> removes WhiteSpace and LineTerminator code units from both ends.
\<close>

definition isWhiteSpace :: "jschar \<Rightarrow> bool" where
  "isWhiteSpace c \<longleftrightarrow>
     c \<in> set [0x09, 0x0A, 0x0B, 0x0C, 0x0D, 0x20, 0xA0, 0x1680, 0x2028, 0x2029, 0x202F,
               0x205F, 0x3000, 0xFEFF] \<or> (0x2000 \<le> c \<and> c \<le> 0x200A)"

definition trim :: "jsstring \<Rightarrow> jsstring" where
  "trim s = rev (dropWhile isWhiteSpace (rev (dropWhile isWhiteSpace s)))"

section \<open>Objects used as dictionaries\<close>

text \<open>
  The program keeps its dictionaries in plain objects. The own properties of an object are
  listed here in the order in which \<^verbatim>\<open>Object.keys\<close> and \<^verbatim>\<open>Object.entries\<close> enumerate them:
  first the keys that are array indices (canonical decimal numerals below \<open>2^32 - 1\<close>, which
  is 4294967295) in
  ascending numeric order, then all other keys in the order of their creation.
\<close>

type_synonym 'v jsobj = "(jsstring \<times> 'v) list"

definition isDigit :: "jschar \<Rightarrow> bool" where
  "isDigit c \<longleftrightarrow> 0x30 \<le> c \<and> c \<le> 0x39"

definition decimalValue :: "jsstring \<Rightarrow> int" where
  "decimalValue k = foldl (\<lambda>a c. 10 * a + (uint c - 48)) 0 k"

definition arrayIndex :: "jsstring \<Rightarrow> int option" where
  "arrayIndex k =
     (if k \<noteq> [] \<and> list_all isDigit k \<and> (k = [0x30] \<or> hd k \<noteq> 0x30)
         \<and> decimalValue k < 4294967295
      then Some (decimalValue k) else None)"

definition objGet :: "'v jsobj \<Rightarrow> jsstring \<Rightarrow> 'v option" where
  "objGet o' k = map_of o' k"

definition objKeys :: "'v jsobj \<Rightarrow> jsstring list" where
  "objKeys o' = map fst o'"

text \<open>Where a new property goes in the enumeration order.\<close>

fun objInsert :: "jsstring \<Rightarrow> 'v \<Rightarrow> 'v jsobj \<Rightarrow> 'v jsobj" where
  "objInsert k v [] = [(k, v)]"
| "objInsert k v ((k', v') # rest) =
     (case arrayIndex k of
        None \<Rightarrow> (k', v') # objInsert k v rest
      | Some n \<Rightarrow>
          (case arrayIndex k' of
             None \<Rightarrow> (k, v) # (k', v') # rest
           | Some n' \<Rightarrow> if n < n' then (k, v) # (k', v') # rest
                        else (k', v') # objInsert k v rest))"

text \<open>
  \<^verbatim>\<open>obj[k] = v\<close> on an object created by \<^verbatim>\<open>{}\<close>. An existing property keeps its place.
  The key \<^verbatim>\<open>__proto__\<close> names the accessor inherited from \<^verbatim>\<open>Object.prototype\<close>, whose setter
  creates no property (and does nothing at all when the value is a string, a boolean or
  \<^verbatim>\<open>undefined\<close>).
\<close>

definition objSet :: "'v jsobj \<Rightarrow> jsstring \<Rightarrow> 'v \<Rightarrow> 'v jsobj" where
  "objSet o' k v =
     (if k = js ''__proto__'' then o'
      else if k \<in> set (objKeys o') then map (\<lambda>(k', v'). if k' = k then (k', v) else (k', v')) o'
      else objInsert k v o')"

section \<open>Errors\<close>

text \<open>
  The three mismatch errors that \<^verbatim>\<open>getMapping\<close> throws, the \<^verbatim>\<open>SyntaxError\<close> of the
  \<^verbatim>\<open>RegExp\<close> constructor and the \<^verbatim>\<open>TypeError\<close> of a method call on \<^verbatim>\<open>undefined\<close>.
  \<open>Unmodelled\<close> is no error of the program: it marks a pattern that \<open>textRegExp\<close> below
  does not interpret.
\<close>

datatype error = MathMismatch | GraphieMismatch | WidgetMismatch | SyntaxError | TypeError
  | Unmodelled

text \<open>\<^verbatim>\<open>array.map(f)\<close> with a callback that may throw: the first throw ends the loop.\<close>

fun mapE :: "('a \<Rightarrow> error + 'b) \<Rightarrow> 'a list \<Rightarrow> error + 'b list" where
  "mapE f [] = Inr []"
| "mapE f (x # xs) =
     (case f x of
        Inl e \<Rightarrow> Inl e
      | Inr y \<Rightarrow> (case mapE f xs of Inl e \<Rightarrow> Inl e | Inr ys \<Rightarrow> Inr (y # ys)))"

section \<open>The per-language math rewriter\<close>

text \<open>
  \<^verbatim>\<open>translateMath(math, lang)\<close>. The language is \<open>None\<close> where the caller passes
  \<^verbatim>\<open>undefined\<close>.
\<close>

definition translateMath :: "jsstring \<Rightarrow> jsstring option \<Rightarrow> jsstring" where
  "translateMath math lang =
     (if lang = Some (js ''pt'') then replaceAll (lit SIN) OPERATORNAME_SEN math else math)"

section \<open>Group keys\<close>

text \<open>
  \<^verbatim>\<open>allMatches(text, /\\text{([^}]*)}/g, callback)\<close>: the \<^verbatim>\<open>exec\<close> loop hands every match to
  the callback. All three calls of the program pass this pattern, whose matches are never
  empty, so that the loop always advances. The callbacks only read \<^verbatim>\<open>matches[1]\<close>.
\<close>

definition allMatches :: "jsstring \<Rightarrow> jsstring list" where
  "allMatches text = map group1 (matchAll TEXT_REGEX text)"

text \<open>
  \<^verbatim>\<open>result.sort()\<close> without a comparator orders strings by their code units, a proper prefix
  before its extensions: the lexicographic order of lists over the unsigned order of words.
\<close>

definition groupKeyTexts :: "jsstring \<Rightarrow> jsstring list list" where
  "groupKeyTexts s = map (\<lambda>math. sort (allMatches math)) (matchAll MATH_REGEX s)"

definition groupKeyStr :: "jsstring \<Rightarrow> jsstring" where
  "groupKeyStr s =
     join LINE_BREAK (map trim (split
       (replaceAll MATH_WIDGET_REGEX (MATH_PH @ [0x20] @ WIDGET_PH)
         (replaceAll WIDGET_REGEX WIDGET_PH
           (replaceAll GRAPHIE_REGEX GRAPHIE_PH
             (replaceAll MATH_REGEX MATH_PH s))))))"

subsection \<open>JSON\<close>

text \<open>
  \<^verbatim>\<open>JSON.stringify\<close> on an object with a string \<^verbatim>\<open>str\<close> and an array of arrays of strings
  \<^verbatim>\<open>texts\<close>. QuoteJSONString escapes the quote, the backslash and the control characters, and
  writes a surrogate that is not part of a pair as \<^verbatim>\<open>\uXXXX\<close>.
\<close>

record group_key =
  str :: jsstring
  texts :: "jsstring list list"

definition hexDigit :: "nat \<Rightarrow> jschar" where
  "hexDigit n = (if n < 10 then of_nat (48 + n) else of_nat (87 + n))"

definition unicodeEscape :: "jschar \<Rightarrow> jsstring" where
  "unicodeEscape c =
     [BACKSLASH, 0x75, hexDigit (unat c div 4096), hexDigit (unat c div 256 mod 16),
      hexDigit (unat c div 16 mod 16), hexDigit (unat c mod 16)]"

definition isLeadSurrogate :: "jschar \<Rightarrow> bool" where
  "isLeadSurrogate c \<longleftrightarrow> 0xD800 \<le> c \<and> c \<le> 0xDBFF"

definition isTrailSurrogate :: "jschar \<Rightarrow> bool" where
  "isTrailSurrogate c \<longleftrightarrow> 0xDC00 \<le> c \<and> c \<le> 0xDFFF"

definition quoteChar :: "jschar \<Rightarrow> jsstring" where
  "quoteChar c =
     (if c = 0x08 then [BACKSLASH, 0x62]
      else if c = 0x09 then [BACKSLASH, 0x74]
      else if c = 0x0A then [BACKSLASH, 0x6E]
      else if c = 0x0C then [BACKSLASH, 0x66]
      else if c = 0x0D then [BACKSLASH, 0x72]
      else if c = DQUOTE then [BACKSLASH, DQUOTE]
      else if c = BACKSLASH then [BACKSLASH, BACKSLASH]
      else if c < 0x20 then unicodeEscape c
      else [c])"

fun quoteChars :: "jsstring \<Rightarrow> jsstring" where
  "quoteChars [] = []"
| "quoteChars [c] =
     (if isLeadSurrogate c \<or> isTrailSurrogate c then unicodeEscape c else quoteChar c)"
| "quoteChars (c # d # ds) =
     (if isLeadSurrogate c then
        (if isTrailSurrogate d then c # d # quoteChars ds
         else unicodeEscape c @ quoteChars (d # ds))
      else if isTrailSurrogate c then unicodeEscape c @ quoteChars (d # ds)
      else quoteChar c @ quoteChars (d # ds))"

definition QuoteJSONString :: "jsstring \<Rightarrow> jsstring" where
  "QuoteJSONString s = DQUOTE # quoteChars s @ [DQUOTE]"

definition stringifyArray :: "('a \<Rightarrow> jsstring) \<Rightarrow> 'a list \<Rightarrow> jsstring" where
  "stringifyArray f xs = 0x5B # join [COMMA] (map f xs) @ [0x5D]"

definition JSON_stringify :: "group_key \<Rightarrow> jsstring" where
  "JSON_stringify k =
     0x7B # DQUOTE # js ''str'' @ [DQUOTE, 0x3A] @ QuoteJSONString (str k)
       @ [COMMA, DQUOTE] @ js ''texts'' @ [DQUOTE, 0x3A]
       @ stringifyArray (stringifyArray QuoteJSONString) (texts k) @ [0x7D]"

text \<open>\<^verbatim>\<open>stringToGroupKey(str)\<close>\<close>

definition stringToGroupKey :: "jsstring \<Rightarrow> jsstring" where
  "stringToGroupKey s = JSON_stringify \<lparr>str = groupKeyStr s, texts = groupKeyTexts s\<rparr>"

text \<open>
  \<^verbatim>\<open>JSON.parse\<close> on the texts that \<^verbatim>\<open>JSON.stringify\<close> writes for a group key: no white space
  between the tokens, the property \<^verbatim>\<open>str\<close> before the property \<^verbatim>\<open>texts\<close>. \<open>None\<close> is the
  \<^verbatim>\<open>SyntaxError\<close> of a text that is not of this form.
\<close>

definition hexVal :: "jschar \<Rightarrow> nat option" where
  "hexVal c =
     (if 0x30 \<le> c \<and> c \<le> 0x39 then Some (unat c - 48)
      else if 0x61 \<le> c \<and> c \<le> 0x66 then Some (unat c - 87)
      else if 0x41 \<le> c \<and> c \<le> 0x46 then Some (unat c - 55)
      else None)"

definition unescapeChar :: "jschar \<Rightarrow> jschar option" where
  "unescapeChar e =
     (if e = DQUOTE then Some DQUOTE
      else if e = BACKSLASH then Some BACKSLASH
      else if e = 0x2F then Some 0x2F
      else if e = 0x62 then Some 0x08
      else if e = 0x66 then Some 0x0C
      else if e = 0x6E then Some 0x0A
      else if e = 0x72 then Some 0x0D
      else if e = 0x74 then Some 0x09
      else None)"

definition consChar :: "jschar \<Rightarrow> (jsstring \<times> jsstring) option \<Rightarrow> (jsstring \<times> jsstring) option" where
  "consChar c res = (case res of None \<Rightarrow> None | Some (t, r) \<Rightarrow> Some (c # t, r))"

definition hexUnit :: "jschar \<Rightarrow> jschar \<Rightarrow> jschar \<Rightarrow> jschar \<Rightarrow> jschar option" where
  "hexUnit h1 h2 h3 h4 =
     (case (hexVal h1, hexVal h2, hexVal h3, hexVal h4) of
        (Some a, Some b, Some c, Some d) \<Rightarrow> Some (of_nat (4096 * a + 256 * b + 16 * c + d))
      | _ \<Rightarrow> None)"

text \<open>The code units of a JSON string up to its closing quote, and the text behind it.\<close>

fun parseChars :: "jsstring \<Rightarrow> (jsstring \<times> jsstring) option" where
  "parseChars [] = None"
| "parseChars (c # cs) =
     (if c = DQUOTE then Some ([], cs)
      else if c = BACKSLASH then
        (case cs of
           [] \<Rightarrow> None
         | e # es \<Rightarrow>
             if e = 0x75 then
               (case es of
                  h1 # h2 # h3 # h4 # r \<Rightarrow>
                    (case hexUnit h1 h2 h3 h4 of
                       None \<Rightarrow> None
                     | Some x \<Rightarrow> consChar x (parseChars r))
                | _ \<Rightarrow> None)
             else
               (case unescapeChar e of
                  None \<Rightarrow> None
                | Some x \<Rightarrow> consChar x (parseChars es)))
      else if c < 0x20 then None
      else consChar c (parseChars cs))"

definition parseString :: "jsstring \<Rightarrow> (jsstring \<times> jsstring) option" where
  "parseString s = (case s of [] \<Rightarrow> None | c # cs \<Rightarrow> if c = DQUOTE then parseChars cs else None)"

text \<open>
  The elements of a non-empty array behind its opening bracket. An element parser always
  consumes input; the test on the lengths says so where the recursion needs it.
\<close>

function parseElements ::
  "(jsstring \<Rightarrow> ('a \<times> jsstring) option) \<Rightarrow> jsstring \<Rightarrow> ('a list \<times> jsstring) option" where
  "parseElements p s =
     (case p s of
        None \<Rightarrow> None
      | Some (x, r) \<Rightarrow>
          (case r of
             [] \<Rightarrow> None
           | c # r' \<Rightarrow>
               if c = 0x5D then Some ([x], r')
               else if c = COMMA \<and> length r' < length s then
                 (case parseElements p r' of None \<Rightarrow> None | Some (xs, r'') \<Rightarrow> Some (x # xs, r''))
               else None))"
  by pat_completeness auto
termination
  by (relation "measure (\<lambda>(p, s). length s)") auto

definition parseArray ::
  "(jsstring \<Rightarrow> ('a \<times> jsstring) option) \<Rightarrow> jsstring \<Rightarrow> ('a list \<times> jsstring) option" where
  "parseArray p s =
     (case s of
        [] \<Rightarrow> None
      | c # r \<Rightarrow>
          if c = 0x5B then
            (case r of
               [] \<Rightarrow> None
             | d # r' \<Rightarrow> if d = 0x5D then Some ([], r') else parseElements p r)
          else None)"

definition JSON_parse :: "jsstring \<Rightarrow> group_key option" where
  "JSON_parse s =
     (let open' = 0x7B # DQUOTE # js ''str'' @ [DQUOTE, 0x3A];
          mid = [COMMA, DQUOTE] @ js ''texts'' @ [DQUOTE, 0x3A]
      in if prefix open' s then
           (case parseString (drop (length open') s) of
              None \<Rightarrow> None
            | Some (x, r) \<Rightarrow>
                if prefix mid r then
                  (case parseArray (parseArray parseString) (drop (length mid) r) of
                     None \<Rightarrow> None
                   | Some (ts, r') \<Rightarrow> if r' = [0x7D] then Some \<lparr>str = x, texts = ts\<rparr> else None)
                else None)
         else None)"

section \<open>The fragment dictionary\<close>

text \<open>
  \<^verbatim>\<open>getMathDictionary(englishStr, translatedStr)\<close>. The formulas are grouped under their
  text with every \<^verbatim>\<open>\text{...}\<close> block replaced by \<^verbatim>\<open>__TEXT__\<close>; a group is an array of
  formulas, which \<^verbatim>\<open>regex.exec\<close> converts to a string by joining its elements with commas. The
  set of fragments of a group is an object with the fragments as keys. A value of the
  dictionary is \<open>None\<close> where the program stores \<^verbatim>\<open>undefined\<close>, the element behind the end of
  \<^verbatim>\<open>outputKeys\<close>.
\<close>

type_synonym dictionary = "jsstring option jsobj"

definition pushTo :: "jsstring list jsobj \<Rightarrow> jsstring \<Rightarrow> jsstring \<Rightarrow> jsstring list jsobj" where
  "pushTo m normalized x =
     (case objGet m normalized of
        None \<Rightarrow> objSet m normalized [x]
      | Some xs \<Rightarrow> objSet m normalized (xs @ [x]))"

definition groupByNormalized :: "jsstring list \<Rightarrow> jsstring list jsobj" where
  "groupByNormalized maths =
     fold (\<lambda>math m. pushTo m (replaceAll TEXT_REGEX TEXT_PH math) math) maths []"

definition textKeys :: "jsstring list \<Rightarrow> jsstring list" where
  "textKeys formulas =
     objKeys (fold (\<lambda>t o'. objSet o' t True) (allMatches (join [COMMA] formulas)) [])"

definition getMathDictionary :: "jsstring \<Rightarrow> jsstring \<Rightarrow> dictionary" where
  "getMathDictionary englishStr translatedStr =
     (let inputMap = groupByNormalized (matchAll MATH_REGEX englishStr);
          outputMap = groupByNormalized (matchAll MATH_REGEX translatedStr)
      in fold (\<lambda>(key, input) dict.
                 if test (lit TEXT_PH) key then
                   (case objGet outputMap key of
                      None \<Rightarrow> dict
                    | Some output \<Rightarrow>
                        (let inputKeys = textKeys input; outputKeys = textKeys output
                         in fold (\<lambda>i d. objSet d (inputKeys ! i)
                                    (if i < length outputKeys then Some (outputKeys ! i) else None))
                              [0..<length inputKeys] dict))
                 else dict)
           inputMap [])"

section \<open>The host's regular expressions for fragments\<close>

text \<open>
  \<^verbatim>\<open>getMapping\<close> and \<^verbatim>\<open>populateTemplate\<close> build a pattern from each English fragment of the
  dictionary, \<^verbatim>\<open>new RegExp(`\\\\text{${englishText}}`, 'g')\<close>, and hand it to
  \<^verbatim>\<open>result.replace\<close>. The fragment is not escaped, so the host reads it as pattern syntax: the
  constructor may throw, and a pattern it accepts may match other texts than the fragment.
  The functions below take this part of the host as their first argument: a function from
  the pattern source to the error thrown by the constructor, or else to the function that
  \<^verbatim>\<open>replace\<close> computes with that pattern, from the replacement and the subject to the result.
\<close>

type_synonym regexp_host = "jsstring \<Rightarrow> error + (jsstring \<Rightarrow> jsstring \<Rightarrow> jsstring)"

text \<open>
  GetSubstitution for a pattern without capture groups: \<^verbatim>\<open>$$\<close> is a dollar, \<^verbatim>\<open>$&\<close> the
  match, \<^verbatim>\<open>$`\<close> the subject before the match, \<^verbatim>\<open>$'\<close> the subject behind it, any other
  dollar stands for itself.
\<close>

fun getSubstitution :: "jsstring \<Rightarrow> jsstring \<Rightarrow> jsstring \<Rightarrow> jsstring \<Rightarrow> jsstring" where
  "getSubstitution matched preceding following [] = []"
| "getSubstitution matched preceding following [c] = [c]"
| "getSubstitution matched preceding following (c # d # r) =
     (if c = DOLLAR \<and> d = DOLLAR then DOLLAR # getSubstitution matched preceding following r
      else if c = DOLLAR \<and> d = 0x26 then matched @ getSubstitution matched preceding following r
      else if c = DOLLAR \<and> d = 0x60 then preceding @ getSubstitution matched preceding following r
      else if c = DOLLAR \<and> d = 0x27 then following @ getSubstitution matched preceding following r
      else c # getSubstitution matched preceding following (d # r))"

text \<open>
  \<^verbatim>\<open>replace\<close> with a global pattern and a replacement string; \<open>preceding\<close> is the part of
  the subject already passed. The search goes on behind each match, one code unit further
  when the match is empty.
\<close>

fun replacePattern :: "re \<Rightarrow> jsstring \<Rightarrow> jsstring \<Rightarrow> jsstring \<Rightarrow> jsstring" where
  "replacePattern r x preceding [] =
     (case exec_at r [] of None \<Rightarrow> [] | Some n \<Rightarrow> getSubstitution [] preceding [] x)"
| "replacePattern r x preceding (c # cs) =
     (case exec_at r (c # cs) of
        None \<Rightarrow> c # replacePattern r x (preceding @ [c]) cs
      | Some n \<Rightarrow>
          getSubstitution (take n (c # cs)) preceding (drop n (c # cs)) x
            @ take (1 - n) [c]
            @ replacePattern r x (preceding @ take (max n 1) (c # cs))
                (drop (max n 1) (c # cs)))"

definition syntaxCharacters :: "jschar list" where
  "syntaxCharacters = BACKSLASH # js ''^$.*+?()[]{}|''"

definition isQuantifierBody :: "jsstring \<Rightarrow> bool" where
  "isQuantifierBody k =
     (let r = dropWhile isDigit k
      in takeWhile isDigit k \<noteq> [] \<and> (r = [] \<or> (hd r = COMMA \<and> list_all isDigit (tl r))))"

text \<open>
  The braced quantifiers \<^verbatim>\<open>{n}\<close>, \<^verbatim>\<open>{n,}\<close> and \<^verbatim>\<open>{n,m}\<close>: the least number of iterations
  and the greatest, if there is one. The constructor refuses bounds out of order. A greedy
  quantifier tries one more iteration before it stops.
\<close>

definition quantifierBounds :: "jsstring \<Rightarrow> (nat \<times> nat option) option" where
  "quantifierBounds k =
     (let least = decimalValue (takeWhile isDigit k); r = dropWhile isDigit k
      in if r = [] then Some (nat least, Some (nat least))
         else if tl r = [] then Some (nat least, None)
         else if decimalValue (tl r) < least then None
         else Some (nat least, Some (nat (decimalValue (tl r)))))"

fun exactly :: "nat \<Rightarrow> re \<Rightarrow> re \<Rightarrow> re" where
  "exactly 0 a r = r"
| "exactly (Suc n) a r = Seq a (exactly n a r)"

fun upTo :: "nat \<Rightarrow> re \<Rightarrow> re" where
  "upTo 0 a = Eps"
| "upTo (Suc n) a = Alt (Seq a (upTo n a)) Eps"

definition quantified :: "re \<Rightarrow> nat \<Rightarrow> nat option \<Rightarrow> re" where
  "quantified a least greatest =
     exactly least a (case greatest of None \<Rightarrow> Star a | Some m \<Rightarrow> upTo (m - least) a)"

text \<open>
  The host on the pattern sources \<^verbatim>\<open>\\text{K}\<close> that the program builds, for three kinds of
  fragment \<open>K\<close>. A fragment without syntax characters that is not the body of a braced
  quantifier gives a pattern that matches the text \<^verbatim>\<open>\text{K}\<close> and nothing else. A fragment
  that is the body of a braced quantifier, such as \<^verbatim>\<open>2\<close>, gives a pattern that matches
  \<^verbatim>\<open>\tex\<close> and then as many \<^verbatim>\<open>t\<close> as the quantifier says. A fragment with an opening
  parenthesis and no backslash, no opening bracket and no closing parenthesis gives a
  pattern with a group that is never closed: the constructor throws \<^verbatim>\<open>SyntaxError\<close>. The
  patterns of all other fragments, which use more of the pattern syntax, are not
  interpreted: no statement below evaluates the host on them.
\<close>

definition textRegExp :: regexp_host where
  "textRegExp source =
     (let open' = [BACKSLASH, BACKSLASH] @ js ''text{'' in
      if prefix open' source \<and> source \<noteq> open' \<and> last source = 0x7D then
        (let k = butlast (drop (length open') source) in
         if list_all (\<lambda>c. c \<notin> set syntaxCharacters) k then
           (if isQuantifierBody k then
              (case quantifierBounds k of
                 None \<Rightarrow> Inl SyntaxError
               | Some (least, greatest) \<Rightarrow>
                   Inr (\<lambda>replacement subject.
                          replacePattern
                            (Seq (lit (BACKSLASH # js ''tex'')) (quantified (chr 0x74) least greatest))
                            replacement [] subject))
            else
              Inr (\<lambda>replacement subject.
                     replacePattern (lit (TEXT_OPEN @ k @ [0x7D])) replacement [] subject))
         else if 0x28 \<in> set k \<and> BACKSLASH \<notin> set k \<and> 0x5B \<notin> set k \<and> 0x29 \<notin> set k then
           Inl SyntaxError
         else Inl Unmodelled)
      else Inl Unmodelled)"

section \<open>The position mapper\<close>

text \<open>
  The parameter \<^verbatim>\<open>findRegex\<close> of \<^verbatim>\<open>getMapping\<close> is one of the three pattern objects, which
  the function tells apart by identity.
\<close>

datatype kind = Math | Graphie | Widget

fun kindRegex :: "kind \<Rightarrow> re" where
  "kindRegex Math = MATH_REGEX"
| "kindRegex Graphie = GRAPHIE_REGEX"
| "kindRegex Widget = WIDGET_REGEX"

text \<open>
  \<^verbatim>\<open>'math doesn\'t match'\<close>, \<^verbatim>\<open>'graphies don\'t match'\<close>, \<^verbatim>\<open>'widgets don\'t match'\<close>
\<close>

fun kindError :: "kind \<Rightarrow> error" where
  "kindError Math = MathMismatch"
| "kindError Graphie = GraphieMismatch"
| "kindError Widget = WidgetMismatch"

text \<open>
  The loop over \<^verbatim>\<open>Object.entries(mathDictionary)\<close> that \<^verbatim>\<open>getMapping\<close> and
  \<^verbatim>\<open>populateTemplate\<close> share: every entry rewrites the result of the entries before it.
\<close>

fun applyDictionary :: "regexp_host \<Rightarrow> dictionary \<Rightarrow> jsstring \<Rightarrow> error + jsstring" where
  "applyDictionary host [] result = Inr result"
| "applyDictionary host ((englishText, translatedText) # entries) result =
     (case host ([BACKSLASH, BACKSLASH] @ js ''text{'' @ englishText @ [0x7D]) of
        Inl e \<Rightarrow> Inl e
      | Inr replace \<Rightarrow>
          applyDictionary host entries
            (replace (TEXT_OPEN @ toStr translatedText @ [0x7D]) result))"

text \<open>
  The first half of \<^verbatim>\<open>getMapping\<close>: for math, every English occurrence goes through the
  dictionary; graphies and widgets stay as they are. The dictionary is \<open>None\<close> where the
  caller leaves the argument out, and \<^verbatim>\<open>Object.entries(undefined)\<close> throws \<^verbatim>\<open>TypeError\<close>.
\<close>

definition rewriteInputs ::
  "regexp_host \<Rightarrow> kind \<Rightarrow> dictionary option \<Rightarrow> jsstring list \<Rightarrow> error + jsstring list" where
  "rewriteInputs host findRegex mathDictionary inputs =
     (if findRegex = Math then
        mapE (\<lambda>input. case mathDictionary of
                         None \<Rightarrow> Inl TypeError
                       | Some dict \<Rightarrow> applyDictionary host dict input) inputs
      else Inr inputs)"

text \<open>The first statement of the \<^verbatim>\<open>outputs.forEach\<close> callback.\<close>

definition rewriteOutput :: "kind \<Rightarrow> jsstring option \<Rightarrow> jsstring \<Rightarrow> jsstring" where
  "rewriteOutput findRegex lang output =
     (if findRegex = Math then translateMath output lang else output)"

text \<open>The \<^verbatim>\<open>outputs.forEach\<close> loop of \<^verbatim>\<open>getMapping\<close>.\<close>

fun mapOutputs :: "jsstring list \<Rightarrow> kind \<Rightarrow> jsstring option \<Rightarrow> jsstring list \<Rightarrow> error + int list" where
  "mapOutputs inputs findRegex lang [] = Inr []"
| "mapOutputs inputs findRegex lang (output # outputs) =
     (let inputIndex = indexOf inputs (rewriteOutput findRegex lang output)
      in if inputIndex = -1 then Inl (kindError findRegex)
         else (case mapOutputs inputs findRegex lang outputs of
                 Inl e \<Rightarrow> Inl e
               | Inr mapping \<Rightarrow> Inr (inputIndex # mapping)))"

text \<open>
  \<^verbatim>\<open>getMapping(englishStr, translatedStr, lang, findRegex, mathDictionary)\<close>; a result
  \<open>Inl e\<close> is the error the call throws.
\<close>

definition getMapping ::
  "regexp_host \<Rightarrow> jsstring \<Rightarrow> jsstring \<Rightarrow> jsstring option \<Rightarrow> kind \<Rightarrow> dictionary option
     \<Rightarrow> error + int list" where
  "getMapping host englishStr translatedStr lang findRegex mathDictionary =
     (case rewriteInputs host findRegex mathDictionary
             (matchAll (kindRegex findRegex) englishStr) of
        Inl e \<Rightarrow> Inl e
      | Inr inputs \<Rightarrow>
          mapOutputs inputs findRegex lang (matchAll (kindRegex findRegex) translatedStr))"

section \<open>Templates\<close>

record template =
  lines :: "jsstring list"
  mathMapping :: "int list"
  graphieMapping :: "int list"
  widgetMapping :: "int list"
  mathDictionary :: dictionary

text \<open>
  \<^verbatim>\<open>createTemplate\<close> returns a template object, or else the error it has caught, as a value.
\<close>

datatype template_result = Failure error | Usable template

definition createTemplate ::
  "regexp_host \<Rightarrow> jsstring \<Rightarrow> jsstring \<Rightarrow> jsstring option \<Rightarrow> template_result" where
  "createTemplate host englishStr translatedStr lang =
     (let translatedLines = split translatedStr;
          dict = getMathDictionary englishStr translatedStr
      in case getMapping host englishStr translatedStr lang Math (Some dict) of
           Inl e \<Rightarrow> Failure e
         | Inr mathMap \<Rightarrow>
             (case getMapping host englishStr translatedStr lang Graphie None of
                Inl e \<Rightarrow> Failure e
              | Inr graphieMap \<Rightarrow>
                  (case getMapping host englishStr translatedStr lang Widget None of
                     Inl e \<Rightarrow> Failure e
                   | Inr widgetMap \<Rightarrow>
                       Usable \<lparr>lines = map (\<lambda>line.
                                   replaceAll WIDGET_REGEX WIDGET_PH
                                     (replaceAll GRAPHIE_REGEX GRAPHIE_PH
                                       (replaceAll MATH_REGEX MATH_PH line))) translatedLines,
                               mathMapping = mathMap,
                               graphieMapping = graphieMap,
                               widgetMapping = widgetMap,
                               mathDictionary = dict\<rparr>)))"

text \<open>
  \<^verbatim>\<open>array[mapping[i]]\<close> as the replacement callbacks of \<^verbatim>\<open>populateTemplate\<close> read it and
  \<^verbatim>\<open>replace\<close> converts it to a string: a read outside either array gives \<^verbatim>\<open>undefined\<close>.
\<close>

definition lookupMapped :: "jsstring list \<Rightarrow> int list \<Rightarrow> nat \<Rightarrow> jsstring" where
  "lookupMapped array mapping i =
     toStr (if i < length mapping \<and> 0 \<le> mapping ! i \<and> nat (mapping ! i) < length array
            then Some (array ! nat (mapping ! i)) else None)"

text \<open>
  The \<^verbatim>\<open>englishLines.map\<close> loop of \<^verbatim>\<open>populateTemplate\<close>. The three callbacks are given as
  functions of the counter they read; the counters \<^verbatim>\<open>mathIndex\<close>, \<^verbatim>\<open>graphieIndex\<close> and
  \<^verbatim>\<open>widgetIndex\<close> go from line to line. \<^verbatim>\<open>template.lines[index]\<close> is \<^verbatim>\<open>undefined\<close> behind the
  last line of the template, and the call of \<^verbatim>\<open>replace\<close> on it throws \<^verbatim>\<open>TypeError\<close>.
\<close>

fun populateLines ::
  "(nat \<Rightarrow> jsstring) \<Rightarrow> (nat \<Rightarrow> jsstring) \<Rightarrow> (nat \<Rightarrow> jsstring) \<Rightarrow> jsstring list \<Rightarrow> nat
     \<Rightarrow> jsstring list \<Rightarrow> nat \<times> nat \<times> nat \<Rightarrow> error + jsstring list" where
  "populateLines math graphie widget templateLines index [] counters = Inr []"
| "populateLines math graphie widget templateLines index (englishLine # englishLines)
       (mathIndex, graphieIndex, widgetIndex) =
     (if index < length templateLines then
        (case replaceCb (lit MATH_PH) (\<lambda>m i. (math i, Suc i))
                (templateLines ! index) mathIndex of
           (s1, mathIndex') \<Rightarrow>
             (case replaceCb (lit GRAPHIE_PH) (\<lambda>m i. (graphie i, Suc i)) s1 graphieIndex of
                (s2, graphieIndex') \<Rightarrow>
                  (case replaceCb (lit WIDGET_PH) (\<lambda>m i. (widget i, Suc i)) s2 widgetIndex of
                     (s3, widgetIndex') \<Rightarrow>
                       (case populateLines math graphie widget templateLines (Suc index)
                               englishLines (mathIndex', graphieIndex', widgetIndex') of
                          Inl e \<Rightarrow> Inl e
                        | Inr rest \<Rightarrow> Inr (s3 # rest)))))
      else Inl TypeError)"

text \<open>
  \<^verbatim>\<open>populateTemplate(template, englishStr, lang)\<close>; a result \<open>Inl e\<close> is the error the call
  throws.
\<close>

definition populateTemplate ::
  "regexp_host \<Rightarrow> template \<Rightarrow> jsstring \<Rightarrow> jsstring option \<Rightarrow> error + jsstring" where
  "populateTemplate host template englishStr lang =
     (let englishLines = split englishStr;
          graphies = matchAll GRAPHIE_REGEX englishStr;
          widgets = matchAll WIDGET_REGEX englishStr
      in case mapE (\<lambda>math. applyDictionary host (mathDictionary template)
                              (translateMath math lang))
                (matchAll MATH_REGEX englishStr) of
           Inl e \<Rightarrow> Inl e
         | Inr maths \<Rightarrow>
             (case populateLines (lookupMapped maths (mathMapping template))
                     (lookupMapped graphies (graphieMapping template))
                     (lookupMapped widgets (widgetMapping template))
                     (lines template) 0 englishLines (0, 0, 0) of
                Inl e \<Rightarrow> Inl e
              | Inr populated \<Rightarrow> Inr (join LINE_BREAK populated)))"

section \<open>The suggestion engine\<close>

text \<open>
  A suggestion group: the items of one group key and the result of \<^verbatim>\<open>createTemplate\<close>,
  \<open>None\<close> for \<^verbatim>\<open>null\<close>.
\<close>

record 'i suggestion_group =
  items :: "'i list"
  template :: "template_result option"

text \<open>
  The fields of a \<^verbatim>\<open>TranslationAssistant\<close>. A field holds \<^verbatim>\<open>undefined\<close> until the
  constructor assigns it: \<open>None\<close> for \<^verbatim>\<open>lang\<close>, and \<^verbatim>\<open>getSuggestionGroups\<close>, the one
  method that runs inside the constructor, does not read \<^verbatim>\<open>suggestionGroups\<close>.
  \<^verbatim>\<open>getTranslation\<close> gives \<open>None\<close> where the caller's function returns \<^verbatim>\<open>null\<close> or
  \<^verbatim>\<open>undefined\<close>.
\<close>

record 'i assistant =
  getEnglishStr :: "'i \<Rightarrow> jsstring"
  getTranslation :: "'i \<Rightarrow> jsstring option"
  suggestionGroups :: "'i suggestion_group jsobj"
  lang :: "jsstring option"

text \<open>
  The \<^verbatim>\<open>for (const item of items)\<close> loop of \<^verbatim>\<open>getSuggestionGroups\<close>: the template of the
  first item whose translation is a non-empty string, \<^verbatim>\<open>null\<close> when there is none.
\<close>

fun firstTemplate :: "regexp_host \<Rightarrow> 'i assistant \<Rightarrow> 'i list \<Rightarrow> template_result option" where
  "firstTemplate host this [] = None"
| "firstTemplate host this (item # rest) =
     (case getTranslation this item of
        None \<Rightarrow> firstTemplate host this rest
      | Some translatedStr \<Rightarrow>
          if translatedStr \<noteq> [] then
            Some (createTemplate host (getEnglishStr this item) translatedStr (lang this))
          else firstTemplate host this rest)"

text \<open>\<^verbatim>\<open>getSuggestionGroups(items)\<close>\<close>

definition getSuggestionGroups ::
  "regexp_host \<Rightarrow> 'i assistant \<Rightarrow> 'i list \<Rightarrow> 'i suggestion_group jsobj" where
  "getSuggestionGroups host this allItems =
     (let grouped =
            fold (\<lambda>obj groups.
                    (let key = stringToGroupKey (getEnglishStr this obj)
                     in case objGet groups key of
                          Some members \<Rightarrow> objSet groups key (members @ [obj])
                        | None \<Rightarrow> objSet groups key [obj]))
              allItems []
      in map (\<lambda>(key, members).
                (key, \<lparr>items = members, template = firstTemplate host this members\<rparr>))
           grouped)"

text \<open>
  \<^verbatim>\<open>new TranslationAssistant(allItems, getEnglishStr, getTranslation, lang)\<close>: the four
  assignments of the constructor, in their order.
\<close>

definition TranslationAssistant ::
  "regexp_host \<Rightarrow> 'i list \<Rightarrow> ('i \<Rightarrow> jsstring) \<Rightarrow> ('i \<Rightarrow> jsstring option) \<Rightarrow> jsstring
     \<Rightarrow> 'i assistant" where
  "TranslationAssistant host allItems getEnglishStr' getTranslation' lang' =
     (let this1 = \<lparr>getEnglishStr = getEnglishStr', getTranslation = getTranslation',
                   suggestionGroups = [], lang = None\<rparr>;
          this2 = this1\<lparr>suggestionGroups := getSuggestionGroups host this1 allItems\<rparr>
      in this2\<lparr>lang := Some lang'\<rparr>)"

text \<open>\<^verbatim>\<open>/^(__MATH__|__GRAPHIE__|__WIDGET__)$/\<close>\<close>

definition BARE_REGEX :: re where
  "BARE_REGEX = Alt (lit MATH_PH) (Alt (lit GRAPHIE_PH) (lit WIDGET_PH))"

text \<open>
  The second half of the callback of \<^verbatim>\<open>itemsToTranslate.map\<close> in \<^verbatim>\<open>suggest\<close>: the
  suggestion from the group of the item, \<open>None\<close> for \<^verbatim>\<open>null\<close>.
\<close>

definition suggestFromGroup ::
  "regexp_host \<Rightarrow> 'i assistant \<Rightarrow> 'i \<Rightarrow> jsstring \<Rightarrow> error + 'i \<times> jsstring option" where
  "suggestFromGroup host this item normalStr =
     (case objGet (suggestionGroups this) normalStr of
        None \<Rightarrow> Inr (item, None)
      | Some g \<Rightarrow>
          (case template g of
             None \<Rightarrow> Inr (item, None)
           | Some (Failure e) \<Rightarrow> Inr (item, None)
           | Some (Usable t) \<Rightarrow>
               (case populateTemplate host t (getEnglishStr this item) (lang this) of
                  Inl e \<Rightarrow> Inl e
                | Inr translatedStr \<Rightarrow> Inr (item, Some translatedStr))))"

text \<open>
  The callback of \<^verbatim>\<open>itemsToTranslate.map\<close> in \<^verbatim>\<open>suggest\<close>: the pair of the item and its
  suggestion. \<open>Inl e\<close> is an error thrown on the way.
\<close>

definition suggestItem ::
  "regexp_host \<Rightarrow> 'i assistant \<Rightarrow> 'i \<Rightarrow> error + 'i \<times> jsstring option" where
  "suggestItem host this item =
     (let englishStr = getEnglishStr this item;
          normalStr = stringToGroupKey englishStr
      in case JSON_parse normalStr of
           None \<Rightarrow> Inl SyntaxError
         | Some normalObj \<Rightarrow>
             if testWhole BARE_REGEX (str normalObj) then
               (if str normalObj = MATH_PH then
                  (if strIndexOf englishStr (BACKSLASH # js ''text'') = -1
                   then Inr (item, Some (translateMath englishStr (lang this)))
                   else suggestFromGroup host this item normalStr)
                else Inr (item, Some englishStr))
             else suggestFromGroup host this item normalStr)"

text \<open>\<^verbatim>\<open>suggest(itemsToTranslate)\<close>\<close>

definition suggest ::
  "regexp_host \<Rightarrow> 'i assistant \<Rightarrow> 'i list \<Rightarrow> error + ('i \<times> jsstring option) list" where
  "suggest host this itemsToTranslate = mapE (suggestItem host this) itemsToTranslate"

section \<open>Auxiliary notions\<close>

text \<open>The rewriting of \<^verbatim>\<open>translateMath\<close> for Portuguese, and the strings it leaves alone.\<close>

definition sen :: "jsstring \<Rightarrow> jsstring" where
  "sen s = replaceAll (lit SIN) OPERATORNAME_SEN s"

fun noSin :: "jsstring \<Rightarrow> bool" where
  "noSin [] = True"
| "noSin (c # cs) = (\<not> prefix SIN (c # cs) \<and> noSin cs)"

text \<open>The class \<^verbatim>\<open>[\t ]\<close> and the replacement for a math and a widget placeholder.\<close>

definition tabOrSpace :: "jschar \<Rightarrow> bool" where
  "tabOrSpace c \<longleftrightarrow> c \<in> set [0x09, 0x20]"

definition COLLAPSED :: jsstring where
  "COLLAPSED = MATH_PH @ [0x20] @ WIDGET_PH"

text \<open>A parse result with a text put in front of the parsed string.\<close>

definition prepend :: "jsstring \<Rightarrow> (jsstring \<times> jsstring) option \<Rightarrow> (jsstring \<times> jsstring) option" where
  "prepend s res = (case res of None \<Rightarrow> None | Some (t, r) \<Rightarrow> Some (s @ t, r))"

text \<open>The host accepts the pattern of every English fragment of a dictionary.\<close>

definition compiles :: "regexp_host \<Rightarrow> dictionary \<Rightarrow> bool" where
  "compiles host dict \<longleftrightarrow>
     (\<forall>(englishText, translatedText) \<in> set dict.
        \<exists>replace. host ([BACKSLASH, BACKSLASH] @ js ''text{'' @ englishText @ [0x7D]) = Inr replace)"





definition rewriteMaths :: "jsstring \<Rightarrow> jsstring option \<Rightarrow> jsstring" where
  "rewriteMaths s lg = fst (replaceCb MATH_REGEX (\<lambda>m u. (translateMath m lg, u)) s ())"



























definition calm :: "jsstring \<Rightarrow> bool" where
  "calm s \<longleftrightarrow>
     s = [] \<or> (hd s \<noteq> 0x5F \<and> hd s \<noteq> 0x4D \<and> hd s \<noteq> 0x47) \<or> prefix [0x5F, 0x5F] s"


section \<open>Properties of the position mapper\<close>

lemma indexOf_ge: "- 1 \<le> indexOf xs x"
  by (induction xs) (auto simp: Let_def)

lemma indexOf_miss: "indexOf xs x = - 1 \<longleftrightarrow> x \<notin> set xs"
proof (induction xs)
  case Nil
  show ?case by simp
next
  case (Cons y ys)
  have "- 1 \<le> indexOf ys x" by (rule indexOf_ge)
  with Cons show ?case by (auto simp: Let_def)
qed

lemma indexOf_hit:
  assumes "indexOf xs x \<noteq> - 1"
  shows "0 \<le> indexOf xs x \<and> nat (indexOf xs x) < length xs
         \<and> xs ! nat (indexOf xs x) = x
         \<and> (\<forall>j < nat (indexOf xs x). xs ! j \<noteq> x)"
  using assms
proof (induction xs)
  case Nil
  then show ?case by simp
next
  case (Cons y ys)
  show ?case
  proof (cases "y = x")
    case True
    then show ?thesis by simp
  next
    case False
    with Cons.prems have ne: "indexOf ys x \<noteq> - 1" by (auto simp: Let_def)
    from Cons.IH [OF ne] have ih: "0 \<le> indexOf ys x" "nat (indexOf ys x) < length ys"
      "ys ! nat (indexOf ys x) = x" "\<forall>j < nat (indexOf ys x). ys ! j \<noteq> x" by auto
    have eq: "indexOf (y # ys) x = indexOf ys x + 1" using False ne by (simp add: Let_def)
    have n: "nat (indexOf ys x + 1) = Suc (nat (indexOf ys x))" using ih(1) by simp
    show ?thesis unfolding eq n using ih False
      by (auto simp: nth_Cons' less_Suc_eq_0_disj)
  qed
qed

lemma mapOutputs_Inr:
  "mapOutputs inputs k lg outs = Inr m \<Longrightarrow>
     m = map (\<lambda>out. indexOf inputs (rewriteOutput k lg out)) outs
     \<and> (\<forall>out \<in> set outs. indexOf inputs (rewriteOutput k lg out) \<noteq> - 1)"
  by (induction outs arbitrary: m) (auto simp: Let_def split: if_splits sum.splits)

lemma mapOutputs_Inl:
  "mapOutputs inputs k lg outs = Inl e \<Longrightarrow>
     e = kindError k \<and> (\<exists>out \<in> set outs. rewriteOutput k lg out \<notin> set inputs)"
  by (induction outs) (auto simp: Let_def indexOf_miss split: if_splits sum.splits)

lemma mapOutputs_total:
  "(\<forall>out \<in> set outs. rewriteOutput k lg out \<in> set inputs) \<Longrightarrow> \<exists>m. mapOutputs inputs k lg outs = Inr m"
  by (induction outs) (auto simp: Let_def indexOf_miss split: if_splits sum.splits)

lemma mapE_Inr: "mapE f xs = Inr ys \<Longrightarrow> length ys = length xs \<and> (\<forall>i < length xs. f (xs ! i) = Inr (ys ! i))"
proof (induction xs arbitrary: ys)
  case Nil
  then show ?case by simp
next
  case (Cons x xs)
  then show ?case by (auto split: sum.splits simp: nth_Cons')
qed

lemma rewriteInputs_length:
  "rewriteInputs host k d ins = Inr ins' \<Longrightarrow> length ins' = length ins"
  by (auto simp: rewriteInputs_def split: if_splits dest: mapE_Inr)

text \<open>The example of the mapping of two exchanged formulas.\<close>

lemma getMapping_exchanged:
  "getMapping textRegExp (js ''$2/4$ and $3/6$'') (js ''$3/6$ and $2/4$'') (Some (js ''es''))
     Math (Some []) = Inr [1, 0]"
  by code_simp

lemma createTemplate_exchanged:
  "createTemplate textRegExp (js ''$2/4$ and $3/6$'') (js ''$3/6$ and $2/4$'') (Some (js ''es''))
     = Usable \<lparr>lines = [MATH_PH @ js '' and '' @ MATH_PH], mathMapping = [1, 0],
                graphieMapping = [], widgetMapping = [], mathDictionary = []\<rparr>"
  by code_simp

text \<open>
  What \<^verbatim>\<open>getMapping\<close> computes. When it returns a mapping, the mapping has one entry for
  each occurrence in the translated string, and the entry is the smallest index at which
  the English occurrences, after the dictionary substitution alone (for math), hold the
  translated occurrence after \<^verbatim>\<open>translateMath\<close> (for math).
\<close>

lemma getMapping_first_index:
  assumes "getMapping host englishStr translatedStr lg findRegex dict = Inr mapping"
  shows "\<exists>inputs.
           rewriteInputs host findRegex dict (matchAll (kindRegex findRegex) englishStr) = Inr inputs
         \<and> length mapping = length (matchAll (kindRegex findRegex) translatedStr)
         \<and> (\<forall>i < length mapping.
              0 \<le> mapping ! i \<and> nat (mapping ! i) < length inputs
              \<and> inputs ! nat (mapping ! i)
                  = rewriteOutput findRegex lg (matchAll (kindRegex findRegex) translatedStr ! i)
              \<and> (\<forall>j < nat (mapping ! i). inputs ! j
                  \<noteq> rewriteOutput findRegex lg (matchAll (kindRegex findRegex) translatedStr ! i))
              \<and> (\<forall>i' < length mapping.
                    rewriteOutput findRegex lg (matchAll (kindRegex findRegex) translatedStr ! i')
                    = rewriteOutput findRegex lg (matchAll (kindRegex findRegex) translatedStr ! i)
                    \<longrightarrow> mapping ! i' = mapping ! i))"
proof -
  let ?outs = "matchAll (kindRegex findRegex) translatedStr"
  from assms obtain inputs where
    ri: "rewriteInputs host findRegex dict (matchAll (kindRegex findRegex) englishStr) = Inr inputs"
    and mo: "mapOutputs inputs findRegex lg ?outs = Inr mapping"
    by (auto simp: getMapping_def split: sum.splits)
  from mapOutputs_Inr [OF mo] have
    m: "mapping = map (\<lambda>out. indexOf inputs (rewriteOutput findRegex lg out)) ?outs"
    and hit: "\<forall>out \<in> set ?outs. indexOf inputs (rewriteOutput findRegex lg out) \<noteq> - 1"
    by auto
  have len: "length mapping = length ?outs" using m by simp
  have each: "0 \<le> mapping ! i \<and> nat (mapping ! i) < length inputs
      \<and> inputs ! nat (mapping ! i) = rewriteOutput findRegex lg (?outs ! i)
      \<and> (\<forall>j < nat (mapping ! i). inputs ! j \<noteq> rewriteOutput findRegex lg (?outs ! i))"
    if "i < length mapping" for i
  proof -
    from that len have i: "i < length ?outs" by simp
    then have "indexOf inputs (rewriteOutput findRegex lg (?outs ! i)) \<noteq> - 1"
      using hit by simp
    from indexOf_hit [OF this] show ?thesis using m i by simp
  qed
  have same: "mapping ! i' = mapping ! i"
    if "i < length mapping" "i' < length mapping"
       "rewriteOutput findRegex lg (?outs ! i') = rewriteOutput findRegex lg (?outs ! i)" for i i'
    using that m len by simp
  show ?thesis using ri len each same by blast
qed

text \<open>
  Claim C6. The claim takes the rewritten form of an English math occurrence to be the
  occurrence after the dictionary substitution and after \<^verbatim>\<open>translateMath\<close>, which is what
  \<^verbatim>\<open>populateTemplate\<close> computes for the English occurrences, and says that an entry of
  the mapping is the smallest index of an English occurrence whose rewritten form is the
  rewritten translated occurrence. \<^verbatim>\<open>getMapping\<close> leaves \<^verbatim>\<open>translateMath\<close> out on the
  English side. For Portuguese, the English string with the formulas \<^verbatim>\<open>$\sin x$\<close> and
  \<^verbatim>\<open>$\operatorname{sen} x$\<close> and the translated string \<^verbatim>\<open>$\sin x$\<close>: both English formulas
  have the rewritten form of the translated one, as \<^verbatim>\<open>translateMath\<close> and as the loop of
  \<^verbatim>\<open>populateTemplate\<close> give it, index 0 is the smallest, and \<^verbatim>\<open>getMapping\<close> returns the
  mapping with the entry 1, which \<^verbatim>\<open>createTemplate\<close> stores. And the English \<^verbatim>\<open>$\sin x$\<close>
  with the translation \<^verbatim>\<open>$\operatorname{sen} x$\<close>, which have the same rewritten form,
  get no mapping at all.
\<close>

theorem getMapping_english_not_rewritten:
  "matchAll MATH_REGEX ([DOLLAR] @ SIN @ js '' x$ and $'' @ OPERATORNAME_SEN @ js '' x$'')
     = [[DOLLAR] @ SIN @ js '' x$'', [DOLLAR] @ OPERATORNAME_SEN @ js '' x$'']
   \<and> matchAll MATH_REGEX ([DOLLAR] @ SIN @ js '' x$'') = [[DOLLAR] @ SIN @ js '' x$'']
   \<and> getMathDictionary ([DOLLAR] @ SIN @ js '' x$ and $'' @ OPERATORNAME_SEN @ js '' x$'')
         ([DOLLAR] @ SIN @ js '' x$'') = []
   \<and> translateMath ([DOLLAR] @ SIN @ js '' x$'') (Some (js ''pt''))
       = [DOLLAR] @ OPERATORNAME_SEN @ js '' x$''
   \<and> translateMath ([DOLLAR] @ OPERATORNAME_SEN @ js '' x$'') (Some (js ''pt''))
       = [DOLLAR] @ OPERATORNAME_SEN @ js '' x$''
   \<and> mapE (\<lambda>math. applyDictionary textRegExp [] (translateMath math (Some (js ''pt''))))
         (matchAll MATH_REGEX
            ([DOLLAR] @ SIN @ js '' x$ and $'' @ OPERATORNAME_SEN @ js '' x$''))
       = Inr [[DOLLAR] @ OPERATORNAME_SEN @ js '' x$'', [DOLLAR] @ OPERATORNAME_SEN @ js '' x$'']
   \<and> getMapping textRegExp
         ([DOLLAR] @ SIN @ js '' x$ and $'' @ OPERATORNAME_SEN @ js '' x$'')
         ([DOLLAR] @ SIN @ js '' x$'') (Some (js ''pt'')) Math (Some []) = Inr [1]
   \<and> createTemplate textRegExp
         ([DOLLAR] @ SIN @ js '' x$ and $'' @ OPERATORNAME_SEN @ js '' x$'')
         ([DOLLAR] @ SIN @ js '' x$'') (Some (js ''pt''))
       = Usable \<lparr>lines = [MATH_PH], mathMapping = [1], graphieMapping = [],
                   widgetMapping = [], mathDictionary = []\<rparr>
   \<and> getMapping textRegExp ([DOLLAR] @ SIN @ js '' x$'')
         ([DOLLAR] @ OPERATORNAME_SEN @ js '' x$'') (Some (js ''pt'')) Math (Some [])
       = Inl MathMismatch"
  by code_simp

text \<open>
  Claim C10. Every entry of a mapping that \<^verbatim>\<open>getMapping\<close> returns is at least 0 and less
  than the number of occurrences of the kind in the English string, and the mapping is as
  long as the list of occurrences of the kind in the translated string. So the three
  mappings of a template that \<^verbatim>\<open>createTemplate\<close> returns hold only indices of occurrences
  of the English string it was built from.
\<close>

theorem getMapping_in_bounds:
  "(getMapping host englishStr translatedStr lg findRegex dict = Inr mapping \<longrightarrow>
      length mapping = length (matchAll (kindRegex findRegex) translatedStr)
      \<and> (\<forall>e \<in> set mapping. 0 \<le> e \<and> e < int (length (matchAll (kindRegex findRegex) englishStr))))
   \<and> (createTemplate host englishStr translatedStr lg = Usable t \<longrightarrow>
        (\<forall>e \<in> set (mathMapping t). 0 \<le> e \<and> e < int (length (matchAll MATH_REGEX englishStr)))
      \<and> (\<forall>e \<in> set (graphieMapping t). 0 \<le> e \<and> e < int (length (matchAll GRAPHIE_REGEX englishStr)))
      \<and> (\<forall>e \<in> set (widgetMapping t). 0 \<le> e \<and> e < int (length (matchAll WIDGET_REGEX englishStr))))"
proof -
  have gm: "length mapping = length (matchAll (kindRegex findRegex) translatedStr)
      \<and> (\<forall>e \<in> set mapping. 0 \<le> e \<and> e < int (length (matchAll (kindRegex findRegex) englishStr)))"
    if a: "getMapping host englishStr translatedStr lg findRegex dict = Inr mapping"
    for findRegex dict mapping
  proof -
    let ?outs = "matchAll (kindRegex findRegex) translatedStr"
    from a obtain inputs where
      ri: "rewriteInputs host findRegex dict (matchAll (kindRegex findRegex) englishStr) = Inr inputs"
      and mo: "mapOutputs inputs findRegex lg ?outs = Inr mapping"
      by (auto simp: getMapping_def split: sum.splits)
    from mapOutputs_Inr [OF mo] have
      m: "mapping = map (\<lambda>out. indexOf inputs (rewriteOutput findRegex lg out)) ?outs"
      and hit: "\<forall>out \<in> set ?outs. indexOf inputs (rewriteOutput findRegex lg out) \<noteq> - 1"
      by auto
    have "0 \<le> e \<and> e < int (length (matchAll (kindRegex findRegex) englishStr))"
      if "e \<in> set mapping" for e
    proof -
      from that m obtain out where "out \<in> set ?outs"
        and e: "e = indexOf inputs (rewriteOutput findRegex lg out)" by auto
      with hit have "e \<noteq> - 1" by simp
      from indexOf_hit [OF this [unfolded e]] rewriteInputs_length [OF ri]
      show ?thesis unfolding e by auto
    qed
    then show ?thesis using m by simp
  qed
  have ct: "(\<forall>e \<in> set (mathMapping t). 0 \<le> e \<and> e < int (length (matchAll MATH_REGEX englishStr)))
      \<and> (\<forall>e \<in> set (graphieMapping t). 0 \<le> e \<and> e < int (length (matchAll GRAPHIE_REGEX englishStr)))
      \<and> (\<forall>e \<in> set (widgetMapping t). 0 \<le> e \<and> e < int (length (matchAll WIDGET_REGEX englishStr)))"
    if c: "createTemplate host englishStr translatedStr lg = Usable t"
  proof -
    from c obtain d where
      "getMapping host englishStr translatedStr lg Math (Some d) = Inr (mathMapping t)"
      "getMapping host englishStr translatedStr lg Graphie None = Inr (graphieMapping t)"
      "getMapping host englishStr translatedStr lg Widget None = Inr (widgetMapping t)"
      by (auto simp: createTemplate_def Let_def split: sum.splits)
    from gm [OF this(1)] gm [OF this(2)] gm [OF this(3)] show ?thesis by simp
  qed
  show ?thesis using gm ct by blast
qed


theorem getMapping_in_bounds_witness:
  "getMapping textRegExp (js ''$2/4$ and $3/6$'') (js ''$3/6$ and $2/4$'') (Some (js ''es''))
     Math (Some []) = Inr [1, 0]
   \<and> length [1, 0 :: int] = length (matchAll MATH_REGEX (js ''$3/6$ and $2/4$''))
   \<and> 1 < int (length (matchAll MATH_REGEX (js ''$2/4$ and $3/6$'')))
   \<and> createTemplate textRegExp (js ''$2/4$ and $3/6$'') (js ''$3/6$ and $2/4$'')
        (Some (js ''es''))
      = Usable \<lparr>lines = [MATH_PH @ js '' and '' @ MATH_PH], mathMapping = [1, 0],
                 graphieMapping = [], widgetMapping = [], mathDictionary = []\<rparr>"
  using getMapping_in_bounds [of textRegExp "js ''$2/4$ and $3/6$''" "js ''$3/6$ and $2/4$''"
      "Some (js ''es'')" Math "Some []" "[1, 0]"]
    getMapping_exchanged createTemplate_exchanged
  by auto

section \<open>Properties of the literal patterns and of the math rewriter\<close>

lemma ms_lit: "ms (lit p) s = (if prefix p s then [drop (length p) s] else [])"
proof (induction p arbitrary: s)
  case Nil
  show ?case by (simp add: lit_def)
next
  case (Cons c p)
  have l: "lit (c # p) = Seq (chr c) (lit p)" by (simp add: lit_def)
  show ?case unfolding l using Cons
    by (cases s) (auto simp: chr_def)
qed

lemma exec_at_lit: "exec_at (lit p) s = (if prefix p s then Some (length p) else None)"
  by (auto simp: exec_at_def ms_lit dest: prefix_length_le)

lemma replaceAll_Nil: "exec_at r [] = None \<Longrightarrow> replaceAll r x [] = []"
  by (simp add: replaceAll_def)

lemma replaceAll_Cons_None:
  "exec_at r (c # cs) = None \<Longrightarrow> replaceAll r x (c # cs) = c # replaceAll r x cs"
  by (simp add: replaceAll_def split: prod.splits)

lemma replaceAll_Cons_Some:
  "exec_at r (c # cs) = Some n \<Longrightarrow> 0 < n \<Longrightarrow>
     replaceAll r x (c # cs) = x @ replaceAll r x (drop n (c # cs))"
proof -
  assume a: "exec_at r (c # cs) = Some n" and n: "0 < n"
  from n have m: "max n (Suc 0) = n" by simp
  from n have t: "take (Suc 0 - n) [c] = []" by simp
  show ?thesis using a by (simp add: replaceAll_def m t split: prod.splits)
qed

lemma replaceAll_lit_Nil: "p \<noteq> [] \<Longrightarrow> replaceAll (lit p) x [] = []"
  by (simp add: replaceAll_Nil exec_at_lit)

lemma replaceAll_lit_Cons:
  "p \<noteq> [] \<Longrightarrow> replaceAll (lit p) x (c # cs) =
     (if prefix p (c # cs) then x @ replaceAll (lit p) x (drop (length p) (c # cs))
      else c # replaceAll (lit p) x cs)"
  by (simp add: replaceAll_Cons_None replaceAll_Cons_Some exec_at_lit)

lemma SIN_eq: "SIN = [0x5C, 0x73, 0x69, 0x6E]"
  by (simp add: SIN_def js_def BACKSLASH_def)

lemma SEN_eq: "OPERATORNAME_SEN =
  [0x5C, 0x6F, 0x70, 0x65, 0x72, 0x61, 0x74, 0x6F, 0x72, 0x6E, 0x61, 0x6D, 0x65, 0x7B, 0x73, 0x65, 0x6E, 0x7D]"
  by (simp add: OPERATORNAME_SEN_def js_def BACKSLASH_def)

lemma sen_Nil: "sen [] = []"
  by (simp add: sen_def replaceAll_lit_Nil SIN_eq)

lemma sen_Cons: "sen (c # cs) =
  (if prefix SIN (c # cs) then OPERATORNAME_SEN @ sen (drop 3 cs) else c # sen cs)"
proof -
  have l: "length SIN = 4" by (simp add: SIN_eq)
  have d: "drop 4 (c # cs) = drop 3 cs" by simp
  have ne: "SIN \<noteq> []" by (simp add: SIN_eq)
  show ?thesis unfolding sen_def replaceAll_lit_Cons [OF ne] l d ..
qed

lemma sen_fixed: "noSin s \<Longrightarrow> sen s = s"
  by (induction s) (simp_all add: sen_Nil sen_Cons)

lemma noSin_SEN: "noSin r \<Longrightarrow> noSin (OPERATORNAME_SEN @ r)"
  by (simp add: SEN_eq SIN_eq)

lemma sen_head: "sen s = x # r \<Longrightarrow> x \<noteq> 0x5C \<Longrightarrow> \<exists>s'. s = x # s' \<and> r = sen s'"
  by (cases s) (auto simp: sen_Nil sen_Cons SEN_eq split: if_splits)

lemma prefix_SIN_sen: 
  assumes "prefix SIN (c # sen cs)" shows "prefix SIN (c # cs)"
proof -
  from assms obtain r where c: "c = 0x5C" and r: "sen cs = 0x73 # 0x69 # 0x6E # r"
    by (auto simp: SIN_eq prefix_def)
  from sen_head [OF r] obtain s1 where s1: "cs = 0x73 # s1" "0x69 # 0x6E # r = sen s1" by auto
  from sen_head [OF s1(2) [symmetric]] obtain s2 where s2: "s1 = 0x69 # s2" "0x6E # r = sen s2" by auto
  from sen_head [OF s2(2) [symmetric]] obtain s3 where s3: "s2 = 0x6E # s3" by auto
  show ?thesis using c s1(1) s2(1) s3 by (simp add: SIN_eq)
qed

lemma noSin_sen: "noSin (sen s)"
proof (induction "length s" arbitrary: s rule: less_induct)
  case less
  show ?case
  proof (cases s)
    case Nil
    then show ?thesis by (simp add: sen_Nil)
  next
    case (Cons c cs)
    show ?thesis
    proof (cases "prefix SIN (c # cs)")
      case True
      have "noSin (sen (drop 3 cs))" by (rule less) (simp add: Cons)
      then show ?thesis using True Cons by (simp add: sen_Cons noSin_SEN)
    next
      case False
      have "noSin (sen cs)" by (rule less) (simp add: Cons)
      moreover have "\<not> prefix SIN (c # sen cs)" using False prefix_SIN_sen by blast
      ultimately show ?thesis using False Cons by (simp add: sen_Cons)
    qed
  qed
qed

lemma sen_idem: "sen (sen s) = sen s"
  by (rule sen_fixed) (rule noSin_sen)

text \<open>
  Claim C9. \<^verbatim>\<open>translateMath\<close> is idempotent: rewriting a rewritten formula for the same
  language changes nothing, whatever the formula and the language.
\<close>

theorem translateMath_idempotent:
  "translateMath (translateMath math lg) lg = translateMath math lg"
  using sen_idem [of math] by (simp add: translateMath_def sen_def)


section \<open>Properties of the group key\<close>

lemma ms_Star_Atom_Nil: "ms (Star (Atom p)) [] = [[]]"
  by (simp add: ms.simps(5))

lemma ms_Star_Atom_Cons:
  "ms (Star (Atom p)) (x # xs) = (if p x then ms (Star (Atom p)) xs @ [x # xs] else [x # xs])"
  by (simp add: ms.simps(5))

lemma ms_Star_then_lit:
  assumes "w \<noteq> []" "\<not> p (hd w)"
  shows "ms (Seq (Star (Atom p)) (lit w)) t =
           (if prefix w (dropWhile p t) then [drop (length w) (dropWhile p t)] else [])"
proof (induction t)
  case Nil
  show ?case using assms by (simp add: ms_lit ms_Star_Atom_Nil)
next
  case (Cons x xs)
  show ?case
  proof (cases "p x")
    case True
    have "\<not> prefix w (x # xs)" using assms True by (cases w) auto
    then have "ms (lit w) (x # xs) = []" by (simp add: ms_lit)
    moreover have "ms (Seq (Star (Atom p)) (lit w)) (x # xs)
        = ms (Seq (Star (Atom p)) (lit w)) xs @ ms (lit w) (x # xs)"
      using True by (simp add: ms_Star_Atom_Cons)
    ultimately show ?thesis using Cons True by simp
  next
    case False
    then show ?thesis by (simp add: ms_Star_Atom_Cons ms_lit)
  qed
qed

lemma MATH_PH_eq: "MATH_PH = [0x5F, 0x5F, 0x4D, 0x41, 0x54, 0x48, 0x5F, 0x5F]"
  by (simp add: MATH_PH_def js_def)

lemma WIDGET_PH_eq: "WIDGET_PH = [0x5F, 0x5F, 0x57, 0x49, 0x44, 0x47, 0x45, 0x54, 0x5F, 0x5F]"
  by (simp add: WIDGET_PH_def js_def)

lemma ms_MATH_WIDGET:
  "ms MATH_WIDGET_REGEX s =
     (if prefix MATH_PH s \<and> prefix WIDGET_PH (dropWhile tabOrSpace (drop 8 s))
      then [drop 10 (dropWhile tabOrSpace (drop 8 s))] else [])"
proof -
  have w: "WIDGET_PH \<noteq> []" "\<not> tabOrSpace (hd WIDGET_PH)"
    by (simp_all add: WIDGET_PH_eq tabOrSpace_def)
  have o: "oneof [0x09, 0x20] = Atom tabOrSpace"
    by (auto simp: oneof_def tabOrSpace_def fun_eq_iff)
  have l: "length MATH_PH = 8" "length WIDGET_PH = 10"
    by (simp_all add: MATH_PH_eq WIDGET_PH_eq)
  have "ms MATH_WIDGET_REGEX s =
      concat (map (ms (Seq (Star (Atom tabOrSpace)) (lit WIDGET_PH))) (ms (lit MATH_PH) s))"
    unfolding MATH_WIDGET_REGEX_def o by (rule ms.simps(3))
  also have "\<dots> = (if prefix MATH_PH s
      then ms (Seq (Star (Atom tabOrSpace)) (lit WIDGET_PH)) (drop 8 s) else [])"
    unfolding ms_lit l by simp
  finally show ?thesis unfolding ms_Star_then_lit [where p = tabOrSpace, OF w] l by simp
qed

lemma exec_at_MATH_WIDGET:
  "exec_at MATH_WIDGET_REGEX s = Some n \<longleftrightarrow>
     (\<exists>ws r. s = MATH_PH @ ws @ WIDGET_PH @ r \<and> set ws \<subseteq> {0x09, 0x20}
        \<and> n = length (MATH_PH @ ws @ WIDGET_PH))"
proof
  have l: "length MATH_PH = 8" "length WIDGET_PH = 10"
    by (simp_all add: MATH_PH_eq WIDGET_PH_eq)
  assume "exec_at MATH_WIDGET_REGEX s = Some n"
  then have pm: "prefix MATH_PH s"
    and pw: "prefix WIDGET_PH (dropWhile tabOrSpace (drop 8 s))"
    and n: "n = length s - length (drop 10 (dropWhile tabOrSpace (drop 8 s)))"
    by (auto simp: exec_at_def ms_MATH_WIDGET split: if_splits)
  from pm obtain t where s: "s = MATH_PH @ t" by (auto simp: prefix_def)
  have d8: "drop 8 s = t" unfolding s using l by simp
  define ws where "ws = takeWhile tabOrSpace t"
  from pw obtain r where r: "dropWhile tabOrSpace t = WIDGET_PH @ r"
    unfolding d8 by (auto simp: prefix_def)
  have t: "t = ws @ WIDGET_PH @ r"
    using takeWhile_dropWhile_id [of tabOrSpace t] unfolding r ws_def by simp
  have ws: "set ws \<subseteq> {0x09, 0x20}"
    unfolding ws_def using set_takeWhileD [of _ tabOrSpace t] by (auto simp: tabOrSpace_def)
  have s': "s = MATH_PH @ ws @ WIDGET_PH @ r" unfolding s using t by simp
  have "n = length (MATH_PH @ ws @ WIDGET_PH)"
    unfolding n d8 r unfolding s' by (simp add: l)
  with s' ws show "\<exists>ws r. s = MATH_PH @ ws @ WIDGET_PH @ r \<and> set ws \<subseteq> {0x09, 0x20}
        \<and> n = length (MATH_PH @ ws @ WIDGET_PH)" by blast
next
  assume "\<exists>ws r. s = MATH_PH @ ws @ WIDGET_PH @ r \<and> set ws \<subseteq> {0x09, 0x20}
        \<and> n = length (MATH_PH @ ws @ WIDGET_PH)"
  then obtain ws r where s: "s = MATH_PH @ ws @ WIDGET_PH @ r" and ws: "set ws \<subseteq> {0x09, 0x20}"
    and n: "n = length (MATH_PH @ ws @ WIDGET_PH)" by blast
  have l: "length MATH_PH = 8" "length WIDGET_PH = 10"
    by (simp_all add: MATH_PH_eq WIDGET_PH_eq)
  have d8: "drop 8 s = ws @ WIDGET_PH @ r" using s l by simp
  have all: "\<forall>x \<in> set ws. tabOrSpace x" using ws by (auto simp: tabOrSpace_def)
  have nw: "\<not> tabOrSpace (hd (WIDGET_PH @ r))" by (simp add: WIDGET_PH_eq tabOrSpace_def)
  have "dropWhile tabOrSpace (ws @ WIDGET_PH @ r) = WIDGET_PH @ r"
    using all nw by (simp add: dropWhile_append3 WIDGET_PH_eq tabOrSpace_def)
  then have dw: "dropWhile tabOrSpace (drop 8 s) = WIDGET_PH @ r" using d8 by simp
  have "ms MATH_WIDGET_REGEX s = [r]"
    unfolding ms_MATH_WIDGET dw using s l by simp
  then show "exec_at MATH_WIDGET_REGEX s = Some n"
    using n s l by (simp add: exec_at_def)
qed


lemma replaceAll_no_match: "\<not> test r s \<Longrightarrow> replaceAll r x s = s"
proof (induction s)
  case Nil
  then show ?case by (simp add: replaceAll_Nil)
next
  case (Cons c cs)
  then show ?case by (simp add: replaceAll_Cons_None)
qed

lemma exec_at_MATH_WIDGET_pos: "exec_at MATH_WIDGET_REGEX s = Some n \<Longrightarrow> 0 < n"
  unfolding exec_at_MATH_WIDGET by (auto simp: MATH_PH_eq)

lemma collapse_long:
  "test MATH_WIDGET_REGEX s \<Longrightarrow> 19 \<le> length (replaceAll MATH_WIDGET_REGEX COLLAPSED s)"
proof (induction s)
  case Nil
  then show ?case by (simp add: exec_at_def ms_MATH_WIDGET MATH_PH_eq)
next
  case (Cons c cs)
  show ?case
  proof (cases "exec_at MATH_WIDGET_REGEX (c # cs)")
    case None
    with Cons show ?thesis by (simp add: replaceAll_Cons_None)
  next
    case (Some n)
    from exec_at_MATH_WIDGET_pos [OF Some] have "0 < n" .
    from replaceAll_Cons_Some [OF Some this, of COLLAPSED]
    show ?thesis by (simp add: COLLAPSED_def MATH_PH_eq WIDGET_PH_eq)
  qed
qed

lemma collapse_empty:
  "replaceAll MATH_WIDGET_REGEX COLLAPSED s = [] \<Longrightarrow> s = []"
proof (cases s)
  case Nil
  then show ?thesis by simp
next
  case (Cons c cs)
  assume e: "replaceAll MATH_WIDGET_REGEX COLLAPSED s = []"
  show ?thesis
  proof (cases "exec_at MATH_WIDGET_REGEX (c # cs)")
    case None
    with e Cons show ?thesis by (simp add: replaceAll_Cons_None)
  next
    case (Some n)
    from exec_at_MATH_WIDGET_pos [OF Some] have "0 < n" .
    from replaceAll_Cons_Some [OF Some this, of COLLAPSED] e Cons
    show ?thesis by (simp add: COLLAPSED_def)
  qed
qed

lemma collapse_isolated:
  "replaceAll MATH_WIDGET_REGEX COLLAPSED (MATH_PH @ ws @ WIDGET_PH) = COLLAPSED
     \<longleftrightarrow> set ws \<subseteq> {0x09, 0x20}"
proof
  let ?s = "MATH_PH @ ws @ WIDGET_PH"
  have ne: "?s = 0x5F # tl ?s" by (simp add: MATH_PH_eq)
  assume out: "replaceAll MATH_WIDGET_REGEX COLLAPSED ?s = COLLAPSED"
  show "set ws \<subseteq> {0x09, 0x20}"
  proof (cases "exec_at MATH_WIDGET_REGEX ?s")
    case (Some n)
    from exec_at_MATH_WIDGET_pos [OF Some] have pos: "0 < n" .
    from Some obtain ws' r where s: "?s = MATH_PH @ ws' @ WIDGET_PH @ r"
      and ws': "set ws' \<subseteq> {0x09, 0x20}" and n: "n = length (MATH_PH @ ws' @ WIDGET_PH)"
      unfolding exec_at_MATH_WIDGET by blast
    have dr: "drop n ?s = r" unfolding n by (subst s) simp
    have "replaceAll MATH_WIDGET_REGEX COLLAPSED ?s
        = COLLAPSED @ replaceAll MATH_WIDGET_REGEX COLLAPSED (drop n ?s)"
      using Some pos ne replaceAll_Cons_Some [of MATH_WIDGET_REGEX "0x5F" "tl ?s" n COLLAPSED]
      by simp
    with out have "replaceAll MATH_WIDGET_REGEX COLLAPSED r = []" unfolding dr by simp
    then have "r = []" by (rule collapse_empty)
    with s have "ws @ WIDGET_PH = ws' @ WIDGET_PH" by simp
    then have "ws = ws'" by simp
    with ws' show ?thesis by simp
  next
    case None
    obtain cs where cs: "?s = 0x5F # cs" using ne by blast
    have none: "exec_at MATH_WIDGET_REGEX (0x5F # cs) = None" using None unfolding cs .
    have step: "replaceAll MATH_WIDGET_REGEX COLLAPSED (0x5F # cs)
        = 0x5F # replaceAll MATH_WIDGET_REGEX COLLAPSED cs"
      using none by (rule replaceAll_Cons_None)
    have out': "replaceAll MATH_WIDGET_REGEX COLLAPSED (0x5F # cs) = COLLAPSED"
      using out unfolding cs .
    have nt: "\<not> test MATH_WIDGET_REGEX cs"
    proof
      assume "test MATH_WIDGET_REGEX cs"
      from collapse_long [OF this] step out' show False
        by (simp add: COLLAPSED_def MATH_PH_eq WIDGET_PH_eq)
    qed
    have "\<not> test MATH_WIDGET_REGEX (0x5F # cs)"
      using nt none by simp
    from replaceAll_no_match [OF this] out' have "0x5F # cs = COLLAPSED" by simp
    then have "?s = COLLAPSED" unfolding cs .
    then have "ws = [0x20]" by (simp add: COLLAPSED_def)
    then show ?thesis by simp
  qed
next
  assume ws: "set ws \<subseteq> {0x09, 0x20}"
  let ?s = "MATH_PH @ ws @ WIDGET_PH"
  have ne: "?s = 0x5F # tl ?s" by (simp add: MATH_PH_eq)
  have "exec_at MATH_WIDGET_REGEX ?s = Some (length ?s)"
    unfolding exec_at_MATH_WIDGET using ws by (intro exI [of _ ws] exI [of _ "[]"]) simp
  moreover have "0 < length ?s" by (simp add: MATH_PH_eq)
  ultimately have "replaceAll MATH_WIDGET_REGEX COLLAPSED ?s
      = COLLAPSED @ replaceAll MATH_WIDGET_REGEX COLLAPSED (drop (length ?s) ?s)"
    using ne replaceAll_Cons_Some [of MATH_WIDGET_REGEX "0x5F" "tl ?s" "length ?s" COLLAPSED]
    by simp
  moreover have "replaceAll MATH_WIDGET_REGEX COLLAPSED [] = []"
    by (rule replaceAll_Nil) (simp add: exec_at_def ms_MATH_WIDGET MATH_PH_eq)
  ultimately show "replaceAll MATH_WIDGET_REGEX COLLAPSED ?s = COLLAPSED" by simp
qed

text \<open>
  White space and line terminators at the ends of a paragraph do not reach the skeleton.
\<close>

lemma trimmed_skeleton_example:
  "groupKeyStr ([0x20, 0x09] @ js ''$x$'' @ [0x09, 0x20] @ js ''[['' @ [SNOWMAN]
     @ js '' a]] '' @ LINE_BREAK @ [LF, 0xA0] @ js ''b c '')
   = js ''__MATH__ __WIDGET__'' @ LINE_BREAK @ js ''b c''"
  by code_simp

text \<open>
  Claim C8, as the program has it. The skeleton of the group key is made by replacing the
  math, graphie and widget occurrences by their placeholders, then replacing, from left to
  right, every math placeholder followed by a run of tabs and spaces and a widget
  placeholder by \<^verbatim>\<open>__MATH__ __WIDGET__\<close>, then trimming each paragraph. The pattern of the
  second step matches at a position exactly when the math placeholder, a possibly empty
  run of tabs and spaces, and the widget placeholder stand there; so a math placeholder, a
  separator and a widget placeholder on their own become \<^verbatim>\<open>__MATH__ __WIDGET__\<close> exactly
  when the separator consists of tabs and spaces only, the empty separator included.
\<close>

theorem groupKeyStr_collapse:
  "groupKeyStr s =
     join LINE_BREAK (map trim (split (replaceAll MATH_WIDGET_REGEX COLLAPSED
       (replaceAll WIDGET_REGEX WIDGET_PH (replaceAll GRAPHIE_REGEX GRAPHIE_PH
         (replaceAll MATH_REGEX MATH_PH s))))))
   \<and> (exec_at MATH_WIDGET_REGEX t = Some n \<longleftrightarrow>
        (\<exists>ws r. t = MATH_PH @ ws @ WIDGET_PH @ r \<and> set ws \<subseteq> {0x09, 0x20}
           \<and> n = length (MATH_PH @ ws @ WIDGET_PH)))
   \<and> (replaceAll MATH_WIDGET_REGEX COLLAPSED (MATH_PH @ sep @ WIDGET_PH) = COLLAPSED
        \<longleftrightarrow> set sep \<subseteq> {0x09, 0x20})"
  using exec_at_MATH_WIDGET [of t n] collapse_isolated [of sep]
  by (simp add: groupKeyStr_def COLLAPSED_def)

theorem groupKeyStr_collapse_witness:
  "set [0x09, 0x20, 0x20 :: jschar] \<subseteq> {0x09, 0x20}
   \<and> replaceAll MATH_WIDGET_REGEX COLLAPSED (MATH_PH @ [0x09, 0x20, 0x20] @ WIDGET_PH)
       = COLLAPSED
   \<and> groupKeyStr ([0x20, 0x09] @ js ''$x$'' @ [0x09, 0x20] @ js ''[['' @ [SNOWMAN]
         @ js '' a]] '' @ LINE_BREAK @ [LF, 0xA0] @ js ''b c '')
       = js ''__MATH__ __WIDGET__'' @ LINE_BREAK @ js ''b c''"
  using groupKeyStr_collapse [of "[]" "[]" 0 "[0x09, 0x20, 0x20]"] trimmed_skeleton_example
  by simp

text \<open>
  The collapse is not tied to white space between the placeholders: a formula directly
  followed by a widget gets the space, and a line feed between the two stays.
\<close>

theorem groupKeyStr_collapse_counterexample:
  "groupKeyStr (js ''$x$[['' @ [SNOWMAN] @ js '' a]]'') = js ''__MATH__ __WIDGET__''
   \<and> groupKeyStr (js ''$x$'' @ [LF] @ js ''[['' @ [SNOWMAN] @ js '' a]]'')
       = js ''__MATH__'' @ [LF] @ js ''__WIDGET__''"
  by code_simp

section \<open>The serialisation of group keys\<close>

lemma hexVal_hexDigit_all: "list_all (\<lambda>n. hexVal (hexDigit n) = Some n) [0..<16]"
  by code_simp

lemma hexVal_hexDigit: "n < 16 \<Longrightarrow> hexVal (hexDigit n) = Some n"
  using hexVal_hexDigit_all by (simp add: list_all_iff)

lemma hex_digits_sum:
  "4096 * (u div 4096) + 256 * (u div 256 mod 16) + 16 * (u div 16 mod 16) + u mod 16 = (u::nat)"
proof -
  have e1: "u div 16 div 16 = u div 256" by (simp add: div_mult2_eq [symmetric])
  have e2: "u div 256 div 16 = u div 4096" by (simp add: div_mult2_eq [symmetric])
  have a: "u = 16 * (u div 16) + u mod 16" by simp
  have b: "u div 16 = 16 * (u div 256) + u div 16 mod 16"
    using mult_div_mod_eq [of 16 "u div 16"] unfolding e1 by simp
  have c: "u div 256 = 16 * (u div 4096) + u div 256 mod 16"
    using mult_div_mod_eq [of 16 "u div 256"] unfolding e2 by simp
  show ?thesis using a b c by linarith
qed

lemma unat_jschar_less: "unat (c :: jschar) < 65536"
  using unsigned_less [of c, where ?'a = nat] by simp

lemma hexUnit_unicodeEscape:
  "hexUnit (hexDigit (unat c div 4096)) (hexDigit (unat c div 256 mod 16))
     (hexDigit (unat c div 16 mod 16)) (hexDigit (unat c mod 16)) = Some c"
proof -
  have "unat c div 4096 < 16" using unat_jschar_less [of c] by simp
  then show ?thesis
    by (simp add: hexUnit_def hexVal_hexDigit hex_digits_sum)
qed


lemma prepend_simps:
  "prepend [] res = res" "consChar c res = prepend [c] res"
  "prepend s (prepend t res) = prepend (s @ t) res"
  by (auto simp: prepend_def consChar_def split: option.splits)

lemma parseChars_unicodeEscape:
  "parseChars (unicodeEscape c @ rest) = prepend [c] (parseChars rest)"
  by (simp add: unicodeEscape_def BACKSLASH_def DQUOTE_def hexUnit_unicodeEscape prepend_simps)

lemma parseChars_raw:
  "c \<noteq> DQUOTE \<Longrightarrow> c \<noteq> BACKSLASH \<Longrightarrow> \<not> c < 0x20 \<Longrightarrow>
     parseChars (c # rest) = prepend [c] (parseChars rest)"
  by (simp add: prepend_simps)

lemma parseChars_escape:
  "unescapeChar e = Some c \<Longrightarrow> e \<noteq> 0x75 \<Longrightarrow>
     parseChars (BACKSLASH # e # rest) = prepend [c] (parseChars rest)"
  by (simp add: BACKSLASH_def DQUOTE_def prepend_simps)

lemma parseChars_quoteChar:
  "parseChars (quoteChar c @ rest) = prepend [c] (parseChars rest)"
proof -
  consider "c = 0x08" | "c = 0x09" | "c = 0x0A" | "c = 0x0C" | "c = 0x0D" | "c = DQUOTE"
    | "c = BACKSLASH"
    | "c \<notin> {0x08, 0x09, 0x0A, 0x0C, 0x0D, DQUOTE, BACKSLASH}" "c < 0x20"
    | "c \<notin> {0x08, 0x09, 0x0A, 0x0C, 0x0D, DQUOTE, BACKSLASH}" "\<not> c < 0x20"
    by blast
  then show ?thesis
  proof cases
    case 1
    have "quoteChar c = [BACKSLASH, 0x62]" using 1 by (simp add: quoteChar_def)
    then show ?thesis using 1 parseChars_escape [of "0x62" "0x08" rest]
      by (simp add: unescapeChar_def DQUOTE_def BACKSLASH_def del: parseChars.simps)
  next
    case 2
    have "quoteChar c = [BACKSLASH, 0x74]" using 2 by (simp add: quoteChar_def)
    then show ?thesis using 2 parseChars_escape [of "0x74" "0x09" rest]
      by (simp add: unescapeChar_def DQUOTE_def BACKSLASH_def del: parseChars.simps)
  next
    case 3
    have "quoteChar c = [BACKSLASH, 0x6E]" using 3 by (simp add: quoteChar_def)
    then show ?thesis using 3 parseChars_escape [of "0x6E" "0x0A" rest]
      by (simp add: unescapeChar_def DQUOTE_def BACKSLASH_def del: parseChars.simps)
  next
    case 4
    have "quoteChar c = [BACKSLASH, 0x66]" using 4 by (simp add: quoteChar_def)
    then show ?thesis using 4 parseChars_escape [of "0x66" "0x0C" rest]
      by (simp add: unescapeChar_def DQUOTE_def BACKSLASH_def del: parseChars.simps)
  next
    case 5
    have "quoteChar c = [BACKSLASH, 0x72]" using 5 by (simp add: quoteChar_def)
    then show ?thesis using 5 parseChars_escape [of "0x72" "0x0D" rest]
      by (simp add: unescapeChar_def DQUOTE_def BACKSLASH_def del: parseChars.simps)
  next
    case 6
    have "quoteChar c = [BACKSLASH, DQUOTE]" using 6 by (simp add: quoteChar_def DQUOTE_def)
    then show ?thesis using 6 parseChars_escape [of DQUOTE DQUOTE rest]
      by (simp add: unescapeChar_def DQUOTE_def BACKSLASH_def del: parseChars.simps)
  next
    case 7
    have "quoteChar c = [BACKSLASH, BACKSLASH]"
      using 7 by (simp add: quoteChar_def DQUOTE_def BACKSLASH_def)
    then show ?thesis using 7 parseChars_escape [of BACKSLASH BACKSLASH rest]
      by (simp add: unescapeChar_def DQUOTE_def BACKSLASH_def del: parseChars.simps)
  next
    case 8
    then have "quoteChar c = unicodeEscape c" by (simp add: quoteChar_def)
    then show ?thesis by (simp add: parseChars_unicodeEscape del: parseChars.simps)
  next
    case 9
    then have "quoteChar c = [c]" by (simp add: quoteChar_def)
    then show ?thesis using 9 by (simp add: parseChars_raw del: parseChars.simps)
  qed
qed

lemma surrogate_raw:
  "isLeadSurrogate c \<or> isTrailSurrogate c \<Longrightarrow> c \<noteq> DQUOTE \<and> c \<noteq> BACKSLASH \<and> \<not> c < 0x20"
  by (auto simp: isLeadSurrogate_def isTrailSurrogate_def DQUOTE_def BACKSLASH_def
      word_le_nat_alt word_less_nat_alt)

lemma parseChars_quoteChars:
  "parseChars (quoteChars s @ rest) = prepend s (parseChars rest)"
proof (induction s rule: quoteChars.induct)
  case 1
  show ?case by (simp add: prepend_simps)
next
  case (2 c)
  show ?case by (simp add: parseChars_unicodeEscape parseChars_quoteChar)
next
  case (3 c d ds)
  show ?case
  proof (cases "isLeadSurrogate c")
    case True
    note lead = this
    show ?thesis
    proof (cases "isTrailSurrogate d")
      case True
      have "parseChars (c # d # quoteChars ds @ rest)
          = prepend [c] (prepend [d] (parseChars (quoteChars ds @ rest)))"
        using surrogate_raw [of c] surrogate_raw [of d] lead True
        by (simp add: parseChars_raw del: parseChars.simps)
      then show ?thesis using lead True 3 by (simp add: prepend_simps del: parseChars.simps)
    next
      case False
      then show ?thesis using lead 3
        by (simp add: parseChars_unicodeEscape prepend_simps del: parseChars.simps)
    qed
  next
    case False
    then show ?thesis using 3
      by (simp add: parseChars_unicodeEscape parseChars_quoteChar prepend_simps
          del: parseChars.simps)
  qed
qed

lemma parseString_QuoteJSONString:
  "parseString (QuoteJSONString s @ r) = Some (s, r)"
  by (simp add: parseString_def QuoteJSONString_def parseChars_quoteChars prepend_def
      del: parseChars.simps)
     (simp add: prepend_def)


lemma parseElements_join:
  assumes "\<And>x r. x \<in> set (x0 # xs) \<Longrightarrow> p (f x @ r) = Some (x, r)"
  shows "parseElements p (join [COMMA] (map f (x0 # xs)) @ 0x5D # r) = Some (x0 # xs, r)"
  using assms
proof (induction xs arbitrary: x0)
  case Nil
  have "p (f x0 @ 0x5D # r) = Some (x0, 0x5D # r)" using Nil by simp
  then show ?case by (subst parseElements.simps) simp
next
  case (Cons x1 xs)
  let ?rest = "join [COMMA] (map f (x1 # xs)) @ 0x5D # r"
  have ih: "parseElements p ?rest = Some (x1 # xs, r)"
    by (rule Cons.IH) (simp add: Cons.prems)
  have j: "join [COMMA] (map f (x0 # x1 # xs)) @ 0x5D # r = f x0 @ COMMA # ?rest" by simp
  have "p (f x0 @ COMMA # ?rest) = Some (x0, COMMA # ?rest)" using Cons.prems by simp
  then show ?case unfolding j using ih
    by (subst parseElements.simps) (simp add: COMMA_def)
qed

lemma parseArray_stringifyArray:
  assumes "\<And>x r. x \<in> set xs \<Longrightarrow> p (f x @ r) = Some (x, r)"
    and "\<And>x. x \<in> set xs \<Longrightarrow> f x \<noteq> [] \<and> hd (f x) \<noteq> 0x5D"
  shows "parseArray p (stringifyArray f xs @ r) = Some (xs, r)"
proof (cases xs)
  case Nil
  then show ?thesis by (simp add: parseArray_def stringifyArray_def)
next
  case (Cons x0 xs')
  have pe: "parseElements p (join [COMMA] (map f (x0 # xs')) @ 0x5D # r) = Some (x0 # xs', r)"
    by (rule parseElements_join) (simp add: assms(1) Cons)
  from assms(2) [of x0] Cons obtain c cs where fx: "f x0 = c # cs" "c \<noteq> 0x5D"
    by (cases "f x0") auto
  have "join [COMMA] (map f (x0 # xs')) = c # tl (join [COMMA] (map f (x0 # xs')))"
    using fx by (cases xs') simp_all
  then obtain t where t: "join [COMMA] (map f (x0 # xs')) = c # t" by blast
  show ?thesis
    using pe fx(2) unfolding Cons stringifyArray_def parseArray_def t by simp
qed

lemma parseArray_strings:
  "parseArray parseString (stringifyArray QuoteJSONString xs @ r) = Some (xs, r)"
proof (rule parseArray_stringifyArray)
  show "parseString (QuoteJSONString x @ r') = Some (x, r')" for x r'
    by (rule parseString_QuoteJSONString)
  show "QuoteJSONString x \<noteq> [] \<and> hd (QuoteJSONString x) \<noteq> 0x5D" for x
    by (simp add: QuoteJSONString_def DQUOTE_def)
qed

lemma parseArray_texts:
  "parseArray (parseArray parseString)
     (stringifyArray (stringifyArray QuoteJSONString) xss @ r) = Some (xss, r)"
proof (rule parseArray_stringifyArray)
  show "parseArray parseString (stringifyArray QuoteJSONString x @ r') = Some (x, r')" for x r'
    by (rule parseArray_strings)
  show "stringifyArray QuoteJSONString x \<noteq> [] \<and> hd (stringifyArray QuoteJSONString x) \<noteq> 0x5D"
    for x by (simp add: stringifyArray_def)
qed

lemma JSON_parse_stringify: "JSON_parse (JSON_stringify k) = Some k"
proof -
  define open' where "open' = 0x7B # DQUOTE # js ''str'' @ [DQUOTE, 0x3A]"
  define mid where "mid = [COMMA, DQUOTE] @ js ''texts'' @ [DQUOTE, 0x3A]"
  define tail where
    "tail = mid @ stringifyArray (stringifyArray QuoteJSONString) (texts k) @ [0x7D]"
  have s: "JSON_stringify k = open' @ QuoteJSONString (str k) @ tail"
    by (simp add: JSON_stringify_def open'_def mid_def tail_def)
  have p1: "prefix open' (JSON_stringify k)" unfolding s by simp
  have d1: "drop (length open') (JSON_stringify k) = QuoteJSONString (str k) @ tail"
    unfolding s by simp
  have p2: "prefix mid tail" unfolding tail_def by simp
  have d2: "drop (length mid) tail
      = stringifyArray (stringifyArray QuoteJSONString) (texts k) @ [0x7D]"
    unfolding tail_def by simp
  show ?thesis
    unfolding JSON_parse_def Let_def open'_def [symmetric] mid_def [symmetric]
    using p1 p2
    by (simp add: d1 d2 parseString_QuoteJSONString parseArray_texts)
qed

lemma JSON_stringify_inj: "JSON_stringify k = JSON_stringify k' \<Longrightarrow> k = k'"
proof -
  assume "JSON_stringify k = JSON_stringify k'"
  then have "JSON_parse (JSON_stringify k) = JSON_parse (JSON_stringify k')" by (rule arg_cong)
  then have "Some k = Some k'" unfolding JSON_parse_stringify .
  then show ?thesis by (rule option.inject [THEN iffD1])
qed

lemma same_key_example:
  "stringToGroupKey (js ''Simplify $2/4$'') = stringToGroupKey (js ''Simplify $3/12$'')"
  by code_simp

lemma trimmed_key_example:
  "stringToGroupKey (js '' Simplify $2/4$ '' @ [LF]) = stringToGroupKey (js ''Simplify $3/12$'')"
  by code_simp

lemma sorted_fragments_example:
  "groupKeyTexts ([DOLLAR] @ TEXT_OPEN @ js ''red} + '' @ TEXT_OPEN @ js ''blue}$'')
     = [[js ''blue'', js ''red'']]"
  by code_simp

text \<open>
  Claim C4. The group key is a function of the string, and it determines the shape: two
  strings get the same key exactly when they have the same skeleton and the same sequence
  of fragment lists, each of which is sorted. No two different shapes, whether they come
  from strings or not, are serialised to the same key.
\<close>

theorem stringToGroupKey_injective:
  "(stringToGroupKey a = stringToGroupKey b \<longleftrightarrow>
      groupKeyStr a = groupKeyStr b \<and> groupKeyTexts a = groupKeyTexts b)
   \<and> (\<forall>fragments \<in> set (groupKeyTexts a). sorted fragments)
   \<and> (JSON_stringify k = JSON_stringify k' \<longrightarrow> k = k')"
proof -
  have "stringToGroupKey a = stringToGroupKey b \<longleftrightarrow>
      groupKeyStr a = groupKeyStr b \<and> groupKeyTexts a = groupKeyTexts b"
    using JSON_stringify_inj
      [of "\<lparr>str = groupKeyStr a, texts = groupKeyTexts a\<rparr>"
          "\<lparr>str = groupKeyStr b, texts = groupKeyTexts b\<rparr>"]
    by (auto simp: stringToGroupKey_def)
  moreover have "\<forall>fragments \<in> set (groupKeyTexts a). sorted fragments"
    by (auto simp: groupKeyTexts_def)
  ultimately show ?thesis using JSON_stringify_inj by blast
qed


theorem stringToGroupKey_injective_witness:
  "stringToGroupKey (js ''Simplify $2/4$'') = stringToGroupKey (js ''Simplify $3/12$'')
   \<and> groupKeyStr (js ''Simplify $2/4$'') = groupKeyStr (js ''Simplify $3/12$'')
   \<and> groupKeyTexts (js ''Simplify $2/4$'') = groupKeyTexts (js ''Simplify $3/12$'')
   \<and> [js ''blue'', js ''red'']
       \<in> set (groupKeyTexts ([DOLLAR] @ TEXT_OPEN @ js ''red} + '' @ TEXT_OPEN @ js ''blue}$''))
   \<and> sorted [js ''blue'', js ''red'']
   \<and> stringToGroupKey (js '' Simplify $2/4$ '' @ [LF]) = stringToGroupKey (js ''Simplify $3/12$'')
   \<and> groupKeyStr (js '' Simplify $2/4$ '' @ [LF]) = groupKeyStr (js ''Simplify $3/12$'')"
  using stringToGroupKey_injective [of "js ''Simplify $2/4$''" "js ''Simplify $3/12$''"]
    stringToGroupKey_injective
      [of "[DOLLAR] @ TEXT_OPEN @ js ''red} + '' @ TEXT_OPEN @ js ''blue}$''"]
    stringToGroupKey_injective [of "js '' Simplify $2/4$ '' @ [LF]" "js ''Simplify $3/12$''"]
    same_key_example sorted_fragments_example trimmed_key_example
  by simp

section \<open>Suggestions for strings that are one placeholder\<close>

lemma Nil_in_ms_lit: "[] \<in> set (ms (lit p) s) \<longleftrightarrow> s = p"
proof -
  have "prefix p s \<and> drop (length p) s = [] \<longleftrightarrow> s = p"
    by (auto simp: prefix_def)
  then show ?thesis by (auto simp: ms_lit)
qed

lemma testWhole_BARE:
  "testWhole BARE_REGEX s \<longleftrightarrow> s = MATH_PH \<or> s = GRAPHIE_PH \<or> s = WIDGET_PH"
  by (simp add: testWhole_def BARE_REGEX_def Nil_in_ms_lit del: ms.simps(3))

lemma JSON_parse_key:
  "JSON_parse (stringToGroupKey s) = Some \<lparr>str = groupKeyStr s, texts = groupKeyTexts s\<rparr>"
  by (simp add: stringToGroupKey_def JSON_parse_stringify)

lemma placeholders_distinct:
  "GRAPHIE_PH \<noteq> MATH_PH" "WIDGET_PH \<noteq> MATH_PH"
  by (simp_all add: MATH_PH_def GRAPHIE_PH_def WIDGET_PH_def js_def)

lemma TranslationAssistant_fields:
  "lang (TranslationAssistant host allItems getE getT lg) = Some lg"
  "getEnglishStr (TranslationAssistant host allItems getE getT lg) = getE"
  by (simp_all add: TranslationAssistant_def Let_def)

lemma suggestItem_bare_math:
  assumes "groupKeyStr (getEnglishStr this item) = MATH_PH"
    and "strIndexOf (getEnglishStr this item) (BACKSLASH # js ''text'') = - 1"
  shows "suggestItem host this item
           = Inr (item, Some (translateMath (getEnglishStr this item) (lang this)))"
  using assms by (simp add: suggestItem_def Let_def JSON_parse_key testWhole_BARE)

lemma suggestItem_bare_other:
  assumes "groupKeyStr (getEnglishStr this item) = GRAPHIE_PH
           \<or> groupKeyStr (getEnglishStr this item) = WIDGET_PH"
  shows "suggestItem host this item = Inr (item, Some (getEnglishStr this item))"
  using assms placeholders_distinct
  by (auto simp: suggestItem_def Let_def JSON_parse_key testWhole_BARE)

lemma suggest_nth:
  "suggest host this its = Inr results \<Longrightarrow> i < length its \<Longrightarrow>
     suggestItem host this (its ! i) = Inr (results ! i)"
  unfolding suggest_def by (drule mapE_Inr) simp

lemma bare_math_example:
  "groupKeyStr ([DOLLAR] @ SIN @ js ''(x)$'') = MATH_PH"
  "strIndexOf ([DOLLAR] @ SIN @ js ''(x)$'') (BACKSLASH # js ''text'') = - 1"
  "translateMath ([DOLLAR] @ SIN @ js ''(x)$'') (Some (js ''pt''))
     = [DOLLAR] @ OPERATORNAME_SEN @ js ''(x)$''"
  by code_simp+

lemma bare_graphie_example:
  "groupKeyStr (js ''![](web+graphie://ka/5)'') = GRAPHIE_PH"
  by code_simp

text \<open>
  Claim C7. Take an assistant made by the constructor for the language \<open>lg\<close>, and an item
  whose English string has the key skeleton \<^verbatim>\<open>__MATH__\<close> and does not contain \<^verbatim>\<open>\text\<close>:
  \<^verbatim>\<open>suggest\<close> pairs the item with its English string rewritten by \<^verbatim>\<open>translateMath\<close> for
  \<open>lg\<close>. For an item whose key skeleton is \<^verbatim>\<open>__GRAPHIE__\<close> or \<^verbatim>\<open>__WIDGET__\<close> it pairs the
  item with its English string. This holds for the item asked alone, and at the item's
  place in the result of every call of \<^verbatim>\<open>suggest\<close> that returns.
\<close>

theorem suggest_bare:
  assumes "this = TranslationAssistant host allItems getE getT lg"
  shows "(groupKeyStr (getE item) = MATH_PH
            \<and> strIndexOf (getE item) (BACKSLASH # js ''text'') = - 1 \<longrightarrow>
          suggest host this [item] = Inr [(item, Some (translateMath (getE item) (Some lg)))]
          \<and> (\<forall>its results i. suggest host this its = Inr results \<and> i < length its
                \<and> its ! i = item \<longrightarrow>
              results ! i = (item, Some (translateMath (getE item) (Some lg)))))
       \<and> (groupKeyStr (getE item) = GRAPHIE_PH \<or> groupKeyStr (getE item) = WIDGET_PH \<longrightarrow>
          suggest host this [item] = Inr [(item, Some (getE item))]
          \<and> (\<forall>its results i. suggest host this its = Inr results \<and> i < length its
                \<and> its ! i = item \<longrightarrow>
              results ! i = (item, Some (getE item))))"
proof -
  have f: "lang this = Some lg" "getEnglishStr this = getE"
    unfolding assms by (rule TranslationAssistant_fields)+
  have m: "suggestItem host this item = Inr (item, Some (translateMath (getE item) (Some lg)))"
    if "groupKeyStr (getE item) = MATH_PH"
       "strIndexOf (getE item) (BACKSLASH # js ''text'') = - 1"
    using suggestItem_bare_math [of this item host] that unfolding f by simp
  have o: "suggestItem host this item = Inr (item, Some (getE item))"
    if "groupKeyStr (getE item) = GRAPHIE_PH \<or> groupKeyStr (getE item) = WIDGET_PH"
    using suggestItem_bare_other [of this item host] that unfolding f by simp
  have n: "results ! i = v"
    if "suggest host this its = Inr results" "i < length its" "its ! i = item"
       "suggestItem host this item = Inr v" for its results i v
    using suggest_nth [OF that(1,2)] that(3,4) by simp
  show ?thesis using m o n by (auto simp: suggest_def)
qed


theorem suggest_bare_witness:
  "groupKeyStr ([DOLLAR] @ SIN @ js ''(x)$'') = MATH_PH
   \<and> strIndexOf ([DOLLAR] @ SIN @ js ''(x)$'') (BACKSLASH # js ''text'') = - 1
   \<and> suggest textRegExp
         (TranslationAssistant textRegExp [] (\<lambda>x. x) (\<lambda>x. None) (js ''pt''))
         [[DOLLAR] @ SIN @ js ''(x)$'']
       = Inr [([DOLLAR] @ SIN @ js ''(x)$'', Some ([DOLLAR] @ OPERATORNAME_SEN @ js ''(x)$''))]
   \<and> groupKeyStr (js ''![](web+graphie://ka/5)'') = GRAPHIE_PH
   \<and> suggest textRegExp
         (TranslationAssistant textRegExp [] (\<lambda>x. x) (\<lambda>x. None) (js ''pt''))
         [js ''![](web+graphie://ka/5)'']
       = Inr [(js ''![](web+graphie://ka/5)'', Some (js ''![](web+graphie://ka/5)''))]"
  using suggest_bare [OF refl, of "\<lambda>x. x" "[DOLLAR] @ SIN @ js ''(x)$''" textRegExp "[]"
      "\<lambda>x. None" "js ''pt''"]
    suggest_bare [OF refl, of "\<lambda>x. x" "js ''![](web+graphie://ka/5)''" textRegExp "[]"
      "\<lambda>x. None" "js ''pt''"]
    bare_math_example bare_graphie_example
  by simp

section \<open>Failures of the template construction\<close>

text \<open>
  Once the English occurrences have gone through the dictionary, \<^verbatim>\<open>getMapping\<close> throws
  exactly when a translated occurrence is missing among them, and what it throws then is
  the mismatch error of the kind.
\<close>

lemma getMapping_failure:
  assumes "rewriteInputs host findRegex dict (matchAll (kindRegex findRegex) englishStr) = Inr inputs"
  shows "(\<exists>e. getMapping host englishStr translatedStr lg findRegex dict = Inl e)
           \<longleftrightarrow> (\<exists>out \<in> set (matchAll (kindRegex findRegex) translatedStr).
                  rewriteOutput findRegex lg out \<notin> set inputs)"
    and "getMapping host englishStr translatedStr lg findRegex dict = Inl e
           \<Longrightarrow> e = kindError findRegex"
proof -
  let ?outs = "matchAll (kindRegex findRegex) translatedStr"
  have g: "getMapping host englishStr translatedStr lg findRegex dict
      = mapOutputs inputs findRegex lg ?outs"
    using assms by (simp add: getMapping_def)
  show "(\<exists>e. getMapping host englishStr translatedStr lg findRegex dict = Inl e)
           \<longleftrightarrow> (\<exists>out \<in> set ?outs. rewriteOutput findRegex lg out \<notin> set inputs)"
    unfolding g
  proof
    assume "\<exists>e. mapOutputs inputs findRegex lg ?outs = Inl e"
    then obtain e where "mapOutputs inputs findRegex lg ?outs = Inl e" ..
    from mapOutputs_Inl [OF this]
    show "\<exists>out \<in> set ?outs. rewriteOutput findRegex lg out \<notin> set inputs" ..
  next
    assume miss: "\<exists>out \<in> set ?outs. rewriteOutput findRegex lg out \<notin> set inputs"
    show "\<exists>e. mapOutputs inputs findRegex lg ?outs = Inl e"
    proof (cases "mapOutputs inputs findRegex lg ?outs")
      case (Inl e)
      then show ?thesis ..
    next
      case (Inr m)
      from mapOutputs_Inr [OF this] miss show ?thesis by (auto simp: indexOf_miss)
    qed
  qed
  show "getMapping host englishStr translatedStr lg findRegex dict = Inl e
           \<Longrightarrow> e = kindError findRegex"
    unfolding g using mapOutputs_Inl by blast
qed

text \<open>
  Claim C3 at an input on which the program departs from it. The English and the translated
  string are both \<^verbatim>\<open>$\text{(}$\<close>. The dictionary maps the fragment \<^verbatim>\<open>(\<close> to itself, the
  pattern built from the fragment has a group that is never closed, and the \<^verbatim>\<open>RegExp\<close>
  constructor throws inside \<^verbatim>\<open>getMapping\<close>. \<^verbatim>\<open>createTemplate\<close> returns this error: a
  failure that is no mismatch, for a translated string whose one formula occurs in the
  English string as it is.
\<close>

theorem createTemplate_syntax_error:
  "createTemplate textRegExp ([DOLLAR] @ TEXT_OPEN @ js ''(}$'') ([DOLLAR] @ TEXT_OPEN @ js ''(}$'')
     (Some (js ''es'')) = Failure SyntaxError
   \<and> getMathDictionary ([DOLLAR] @ TEXT_OPEN @ js ''(}$'') ([DOLLAR] @ TEXT_OPEN @ js ''(}$'')
       = [(js ''('', Some (js ''(''))]
   \<and> getMapping textRegExp ([DOLLAR] @ TEXT_OPEN @ js ''(}$'') ([DOLLAR] @ TEXT_OPEN @ js ''(}$'')
       (Some (js ''es'')) Math (Some [(js ''('', Some (js ''(''))]) = Inl SyntaxError
   \<and> map (rewriteOutput Math (Some (js ''es''))) (matchAll MATH_REGEX ([DOLLAR] @ TEXT_OPEN @ js ''(}$''))
       = matchAll MATH_REGEX ([DOLLAR] @ TEXT_OPEN @ js ''(}$'')"
  by code_simp

section \<open>The language of the templates\<close>

text \<open>
  The templates of the groups are made inside the constructor before it assigns \<^verbatim>\<open>lang\<close>:
  \<^verbatim>\<open>getSuggestionGroups\<close> reads \<^verbatim>\<open>this.lang\<close> as \<^verbatim>\<open>undefined\<close>.
\<close>

lemma getSuggestionGroups_templates:
  "(key, g) \<in> set (getSuggestionGroups host this allItems) \<Longrightarrow>
     template g = firstTemplate host this (items g)"
  by (auto simp: getSuggestionGroups_def Let_def)

lemma constructor_templates:
  "(key, g) \<in> set (suggestionGroups (TranslationAssistant host allItems getE getT lg)) \<Longrightarrow>
     template g = firstTemplate host
       \<lparr>getEnglishStr = getE, getTranslation = getT, suggestionGroups = [], lang = None\<rparr>
       (items g)"
  by (auto simp: TranslationAssistant_def Let_def dest: getSuggestionGroups_templates)

text \<open>
  Claim C1 at an input on which the program departs from it. One item, with the English
  string and the translation \<^verbatim>\<open>$\sin x$ ok\<close>, and the language \<^verbatim>\<open>pt\<close>. The constructor
  stores the template that \<^verbatim>\<open>createTemplate\<close> gives without a language, a usable one;
  for the language of the constructor \<^verbatim>\<open>createTemplate\<close> gives the math mismatch.
\<close>

theorem constructor_template_without_lang:
  "map (\<lambda>(key, g). template g)
     (suggestionGroups (TranslationAssistant textRegExp
        [([DOLLAR] @ SIN @ js '' x$ ok'', Some ([DOLLAR] @ SIN @ js '' x$ ok''))] fst snd (js ''pt'')))
     = [Some (Usable \<lparr>lines = [MATH_PH @ js '' ok''], mathMapping = [0], graphieMapping = [],
                       widgetMapping = [], mathDictionary = []\<rparr>)]
   \<and> createTemplate textRegExp ([DOLLAR] @ SIN @ js '' x$ ok'') ([DOLLAR] @ SIN @ js '' x$ ok'')
        (Some (js ''pt'')) = Failure MathMismatch
   \<and> createTemplate textRegExp ([DOLLAR] @ SIN @ js '' x$ ok'') ([DOLLAR] @ SIN @ js '' x$ ok'')
        None = Usable \<lparr>lines = [MATH_PH @ js '' ok''], mathMapping = [0], graphieMapping = [],
                       widgetMapping = [], mathDictionary = []\<rparr>"
  by code_simp


section \<open>Populating a template\<close>

lemma applyDictionary_compiles:
  "applyDictionary host dict x = Inr y \<Longrightarrow> compiles host dict"
proof (induction dict arbitrary: x)
  case Nil
  show ?case by (simp add: compiles_def)
next
  case (Cons entry entries)
  obtain k v where e: "entry = (k, v)" by (cases entry)
  from Cons.prems obtain replace where
    h: "host ([BACKSLASH, BACKSLASH] @ js ''text{'' @ k @ [0x7D]) = Inr replace"
    and r: "applyDictionary host entries (replace (TEXT_OPEN @ toStr v @ [0x7D]) x) = Inr y"
    unfolding e by (auto split: sum.splits)
  from Cons.IH [OF r] h show ?case unfolding e by (auto simp: compiles_def)
qed

lemma compiles_applyDictionary:
  "compiles host dict \<Longrightarrow> \<exists>y. applyDictionary host dict x = Inr y"
proof (induction dict arbitrary: x)
  case Nil
  show ?case by simp
next
  case (Cons entry entries)
  obtain k v where e: "entry = (k, v)" by (cases entry)
  from Cons.prems obtain replace where
    h: "host ([BACKSLASH, BACKSLASH] @ js ''text{'' @ k @ [0x7D]) = Inr replace"
    unfolding e by (auto simp: compiles_def)
  from Cons.prems have "compiles host entries" by (auto simp: compiles_def)
  from Cons.IH [OF this] h show ?case unfolding e by simp
qed

lemma mapE_total:
  "(\<And>x. x \<in> set xs \<Longrightarrow> \<exists>y. f x = Inr y) \<Longrightarrow> \<exists>ys. mapE f xs = Inr ys"
proof (induction xs)
  case Nil
  show ?case by simp
next
  case (Cons x xs)
  from Cons.prems [of x] obtain y where y: "f x = Inr y" by auto
  from Cons.IH Cons.prems obtain ys where "mapE f xs = Inr ys" by auto
  with y show ?case by simp
qed

lemma populateLines_total:
  "index + length englishLines \<le> length templateLines \<Longrightarrow>
     \<exists>populated. populateLines math graphie widget templateLines index englishLines counters
        = Inr populated"
proof (induction englishLines arbitrary: index counters)
  case Nil
  show ?case by simp
next
  case (Cons englishLine englishLines)
  obtain mathIndex graphieIndex widgetIndex where c: "counters = (mathIndex, graphieIndex, widgetIndex)"
    by (cases counters)
  from Cons.prems have i: "index < length templateLines"
    and r: "Suc index + length englishLines \<le> length templateLines" by simp_all
  show ?case unfolding c using i Cons.IH [OF r]
    by (simp split: prod.splits) (metis sum.simps(6))
qed

lemma getMathDictionary_no_math:
  "matchAll MATH_REGEX englishStr = [] \<Longrightarrow> getMathDictionary englishStr translatedStr = []"
  by (simp add: getMathDictionary_def groupByNormalized_def)

lemma createTemplate_Usable:
  assumes "createTemplate host englishStr translatedStr lg = Usable t"
  shows "mathDictionary t = getMathDictionary englishStr translatedStr"
    and "getMapping host englishStr translatedStr lg Math (Some (mathDictionary t))
           = Inr (mathMapping t)"
    and "getMapping host englishStr translatedStr lg Graphie None = Inr (graphieMapping t)"
    and "getMapping host englishStr translatedStr lg Widget None = Inr (widgetMapping t)"
    and "lines t = map (\<lambda>line. replaceAll WIDGET_REGEX WIDGET_PH
                          (replaceAll GRAPHIE_REGEX GRAPHIE_PH
                            (replaceAll MATH_REGEX MATH_PH line))) (split translatedStr)"
  using assms by (auto simp: createTemplate_def Let_def split: sum.splits)

lemma createTemplate_compiles:
  assumes "createTemplate host englishStr translatedStr lg = Usable t"
  shows "compiles host (mathDictionary t)"
proof (cases "matchAll MATH_REGEX englishStr")
  case Nil
  from getMathDictionary_no_math [OF this] createTemplate_Usable(1) [OF assms]
  show ?thesis by (simp add: compiles_def)
next
  case (Cons input inputs)
  from createTemplate_Usable(2) [OF assms] obtain inputs' where
    "rewriteInputs host Math (Some (mathDictionary t)) (input # inputs) = Inr inputs'"
    unfolding getMapping_def Cons [symmetric] by (auto simp: Cons split: sum.splits)
  then obtain y where "applyDictionary host (mathDictionary t) input = Inr y"
    by (auto simp: rewriteInputs_def split: sum.splits)
  then show ?thesis by (rule applyDictionary_compiles)
qed

lemma populate_other_count_example:
  "populateTemplate textRegExp
     \<lparr>lines = [MATH_PH @ js '' and '' @ MATH_PH], mathMapping = [1, 0],
       graphieMapping = [], widgetMapping = [], mathDictionary = []\<rparr>
     (js ''only $1$'') (Some (js ''es''))
   = Inr (js ''undefined and $1$'')"
  by code_simp

text \<open>
  Claim C5. \<^verbatim>\<open>populateTemplate\<close> throws no mismatch error; the mismatch errors belong to
  the construction of the template. For a template that \<^verbatim>\<open>createTemplate\<close> has returned
  and an English string with as many paragraphs as the template has lines,
  \<^verbatim>\<open>populateTemplate\<close> returns a string, whatever the numbers of math, graphie and widget
  occurrences of the English string are.
\<close>

theorem populateTemplate_returns:
  assumes "createTemplate host englishStr translatedStr lg = Usable t"
    and "length (split queryStr) = length (lines t)"
  shows "\<exists>suggestion. populateTemplate host t queryStr lg' = Inr suggestion"
proof -
  have "compiles host (mathDictionary t)" using assms(1) by (rule createTemplate_compiles)
  then have "\<exists>y. applyDictionary host (mathDictionary t) (translateMath math lg') = Inr y"
    for math by (rule compiles_applyDictionary)
  then obtain maths where
    m: "mapE (\<lambda>math. applyDictionary host (mathDictionary t) (translateMath math lg'))
          (matchAll MATH_REGEX queryStr) = Inr maths"
    using mapE_total
      [of "matchAll MATH_REGEX queryStr"
          "\<lambda>math. applyDictionary host (mathDictionary t) (translateMath math lg')"]
    by blast
  have "0 + length (split queryStr) \<le> length (lines t)" using assms(2) by simp
  from populateLines_total [OF this] obtain populated where
    "populateLines (lookupMapped maths (mathMapping t))
       (lookupMapped (matchAll GRAPHIE_REGEX queryStr) (graphieMapping t))
       (lookupMapped (matchAll WIDGET_REGEX queryStr) (widgetMapping t))
       (lines t) 0 (split queryStr) (0, 0, 0) = Inr populated"
    by blast
  with m show ?thesis by (simp add: populateTemplate_def Let_def)
qed


theorem populateTemplate_returns_witness:
  "createTemplate textRegExp (js ''$2/4$ and $3/6$'') (js ''$3/6$ and $2/4$'') (Some (js ''es''))
     = Usable \<lparr>lines = [MATH_PH @ js '' and '' @ MATH_PH], mathMapping = [1, 0],
                graphieMapping = [], widgetMapping = [], mathDictionary = []\<rparr>
   \<and> length (split (js ''only $1$'')) = length [MATH_PH @ js '' and '' @ MATH_PH]
   \<and> populateTemplate textRegExp
         \<lparr>lines = [MATH_PH @ js '' and '' @ MATH_PH], mathMapping = [1, 0],
           graphieMapping = [], widgetMapping = [], mathDictionary = []\<rparr>
         (js ''only $1$'') (Some (js ''es''))
       = Inr (js ''undefined and $1$'')"
proof -
  have l: "length (split (js ''only $1$'')) = length [MATH_PH @ js '' and '' @ MATH_PH]"
    by code_simp
  from populateTemplate_returns [OF createTemplate_exchanged, of "js ''only $1$''"] l
  have "\<exists>suggestion. populateTemplate textRegExp
         \<lparr>lines = [MATH_PH @ js '' and '' @ MATH_PH], mathMapping = [1, 0],
           graphieMapping = [], widgetMapping = [], mathDictionary = []\<rparr>
         (js ''only $1$'') (Some (js ''es'')) = Inr suggestion"
    by simp
  with createTemplate_exchanged l populate_other_count_example show ?thesis by simp
qed

section \<open>The round trip through a template\<close>




lemma TEXT_OPEN_eq: "TEXT_OPEN = [0x5C, 0x74, 0x65, 0x78, 0x74, 0x7B]"
  by (simp add: TEXT_OPEN_def js_def BACKSLASH_def)































text \<open>
  For every language but Portuguese the rewriting of the math occurrences leaves a string
  as it is; for Portuguese, a template is built only where the English string holds the
  rewritten formulas of the translation.
\<close>

lemma replaceCb_identity: "replaceCb r (\<lambda>m u. (m, u)) s () = (s, ())"
proof (induction s rule: length_induct)
  case (1 s)
  show ?case
  proof (cases s)
    case Nil
    then show ?thesis by (simp split: option.splits)
  next
    case (Cons c cs)
    show ?thesis
    proof (cases "exec_at r (c # cs)")
      case None
      have "replaceCb r (\<lambda>m u. (m, u)) cs () = (cs, ())" using 1 Cons by simp
      then show ?thesis using None Cons by simp
    next
      case (Some n)
      have "replaceCb r (\<lambda>m u. (m, u)) (drop (max n 1) (c # cs)) ()
          = (drop (max n 1) (c # cs), ())" using 1 Cons by simp
      moreover have "take n (c # cs) @ take (1 - n) [c] @ drop (max n 1) (c # cs) = c # cs"
      proof (cases n)
        case 0
        then show ?thesis by simp
      next
        case (Suc k)
        then have "max n 1 = n" "take (1 - n) [c] = []" by simp_all
        then show ?thesis by (simp del: take_Suc_Cons drop_Suc_Cons)
      qed
      ultimately show ?thesis using Some Cons by (simp del: take_Suc_Cons drop_Suc_Cons)
    qed
  qed
qed

lemma rewriteMaths_other_language:
  "lg \<noteq> Some (js ''pt'') \<Longrightarrow> rewriteMaths s lg = s"
  by (simp add: rewriteMaths_def translateMath_def replaceCb_identity)

lemma roundtrip_portuguese_example:
  "createTemplate textRegExp ([DOLLAR] @ OPERATORNAME_SEN @ js '' x$ ok'')
     ([DOLLAR] @ SIN @ js '' x$ ok'') (Some (js ''pt''))
   = Usable \<lparr>lines = [MATH_PH @ js '' ok''], mathMapping = [0], graphieMapping = [],
               widgetMapping = [], mathDictionary = []\<rparr>
   \<and> populateTemplate textRegExp
         \<lparr>lines = [MATH_PH @ js '' ok''], mathMapping = [0], graphieMapping = [],
           widgetMapping = [], mathDictionary = []\<rparr>
         ([DOLLAR] @ OPERATORNAME_SEN @ js '' x$ ok'') (Some (js ''pt''))
       = Inr ([DOLLAR] @ OPERATORNAME_SEN @ js '' x$ ok'')
   \<and> rewriteMaths ([DOLLAR] @ SIN @ js '' x$ ok'') (Some (js ''pt''))
       = [DOLLAR] @ OPERATORNAME_SEN @ js '' x$ ok''"
  by code_simp

text \<open>
  A translated string that holds the text of a placeholder is not rebuilt from its template
  lines: \<^verbatim>\<open>populateTemplate\<close> fills the text like a placeholder.
\<close>

lemma placeholder_text_example:
  "createTemplate textRegExp MATH_PH MATH_PH (Some (js ''es''))
     = Usable \<lparr>lines = [MATH_PH], mathMapping = [], graphieMapping = [], widgetMapping = [],
                mathDictionary = []\<rparr>
   \<and> populateTemplate textRegExp
         \<lparr>lines = [MATH_PH], mathMapping = [], graphieMapping = [], widgetMapping = [],
           mathDictionary = []\<rparr> MATH_PH (Some (js ''es''))
       = Inr UNDEFINED"
  by code_simp

text \<open>
  Nor is a translated string in which a placeholder, a text and the next placeholder read
  as another placeholder, or one with a formula that goes over the end of a paragraph.
\<close>

lemma placeholder_straddle_example:
  "createTemplate textRegExp (js ''![](a)MATH[['' @ [SNOWMAN] @ js '' b]]'')
     (js ''![](a)MATH[['' @ [SNOWMAN] @ js '' b]]'') (Some (js ''es''))
     = Usable \<lparr>lines = [GRAPHIE_PH @ js ''MATH'' @ WIDGET_PH], mathMapping = [],
                graphieMapping = [0], widgetMapping = [0], mathDictionary = []\<rparr>
   \<and> populateTemplate textRegExp
         \<lparr>lines = [GRAPHIE_PH @ js ''MATH'' @ WIDGET_PH], mathMapping = [],
           graphieMapping = [0], widgetMapping = [0], mathDictionary = []\<rparr>
         (js ''![](a)MATH[['' @ [SNOWMAN] @ js '' b]]'') (Some (js ''es''))
       = Inr (js ''__GRAPHIEundefinedWIDGET__'')"
  by code_simp

lemma formula_over_paragraphs_example:
  "createTemplate textRegExp (js ''$a'' @ LINE_BREAK @ js ''b$ c$'')
     (js ''$a'' @ LINE_BREAK @ js ''b$ c$'') (Some (js ''es''))
     = Usable \<lparr>lines = [js ''$a'', js ''b'' @ MATH_PH], mathMapping = [0],
                graphieMapping = [], widgetMapping = [], mathDictionary = []\<rparr>
   \<and> populateTemplate textRegExp
         \<lparr>lines = [js ''$a'', js ''b'' @ MATH_PH], mathMapping = [0],
           graphieMapping = [], widgetMapping = [], mathDictionary = []\<rparr>
         (js ''$a'' @ LINE_BREAK @ js ''b$ c$'') (Some (js ''es''))
       = Inr (js ''$a'' @ LINE_BREAK @ js ''b$a'' @ LINE_BREAK @ js ''b$'')"
  by code_simp



































lemma GRAPHIE_PH_eq:
  "GRAPHIE_PH = [0x5F, 0x5F, 0x47, 0x52, 0x41, 0x50, 0x48, 0x49, 0x45, 0x5F, 0x5F]"
  by (simp add: GRAPHIE_PH_def js_def)










lemma calm_PH: "calm MATH_PH" "calm GRAPHIE_PH" "calm WIDGET_PH"
  by (simp_all add: calm_def MATH_PH_eq GRAPHIE_PH_eq WIDGET_PH_eq)













lemma lit_hit: "p \<noteq> [] \<Longrightarrow> p \<noteq> [] \<and> exec_at (lit p) (p @ R) = Some (length p)"
  by (simp add: exec_at_lit)





































section \<open>Matches and the loop of allMatches\<close>

text \<open>
  Every way of matching leaves a suffix of the string, and a match of \<^verbatim>\<open>TEXT_REGEX\<close> is
  never empty: the \<^verbatim>\<open>exec\<close> loop of \<^verbatim>\<open>allMatches\<close> advances with every match.
\<close>

lemma ms_suffix: "r \<in> set (ms a s) \<Longrightarrow> suffix r s"
proof (induction a s arbitrary: r rule: ms.induct)
  case (1 s)
  then show ?case by simp
next
  case (2 p s)
  then show ?case by (cases s) (auto split: if_splits intro: suffix_ConsI)
next
  case (3 a b s)
  from 3(3) obtain m where m: "m \<in> set (ms a s)" and r: "r \<in> set (ms b m)" by auto
  from 3(1) [OF m] 3(2) [OF m r] show ?case by (rule suffix_order.trans [rotated])
next
  case (4 a b s)
  then show ?case by auto
next
  case (5 a s)
  have "r \<in> set (concat (map (\<lambda>m. if length m < length s then ms (Star a) m else [])
      (ms a s)) @ [s])"
    using 5(3) by (subst (asm) ms.simps(5)) simp
  then consider m where "m \<in> set (ms a s)" "length m < length s" "r \<in> set (ms (Star a) m)"
    | "r = s"
    by (auto split: if_splits)
  then show ?case
  proof cases
    case 1
    from 5(1) [OF 1(1)] 5(2) [OF 1(1,2,3)] show ?thesis by (rule suffix_order.trans [rotated])
  next
    case 2
    then show ?thesis by simp
  qed
qed

lemma exec_at_le: "exec_at a s = Some n \<Longrightarrow> n \<le> length s"
  by (auto simp: exec_at_def split: list.splits)

lemma TEXT_match_nonempty: "exec_at TEXT_REGEX s = Some n \<Longrightarrow> 0 < n"
proof -
  assume a: "exec_at TEXT_REGEX s = Some n"
  then obtain x xs where x: "ms TEXT_REGEX s = x # xs" and n: "n = length s - length x"
    by (auto simp: exec_at_def split: list.splits)
  have l: "length TEXT_OPEN = 6" by (simp add: TEXT_OPEN_eq)
  have "ms TEXT_REGEX s
      = concat (map (ms (Seq (Star (notchr 0x7D)) (chr 0x7D))) (ms (lit TEXT_OPEN) s))"
    unfolding TEXT_REGEX_def by (rule ms.simps(3))
  moreover have "x \<in> set (ms TEXT_REGEX s)" using x by simp
  ultimately have "x \<in> set (concat (map (ms (Seq (Star (notchr 0x7D)) (chr 0x7D)))
      (ms (lit TEXT_OPEN) s)))" by simp
  then have p: "prefix TEXT_OPEN s"
    and "x \<in> set (ms (Seq (Star (notchr 0x7D)) (chr 0x7D)) (drop 6 s))"
    unfolding ms_lit l by (auto simp del: ms.simps(3) split: if_splits)
  from ms_suffix [OF this(2)] have "length x \<le> length s - 6"
    using suffix_length_le by fastforce
  moreover from p have "6 \<le> length s" using prefix_length_le l by fastforce
  ultimately show ?thesis unfolding n by simp
qed

section \<open>The examples of the documentation\<close>

text \<open>
  The example in the comment of \<^verbatim>\<open>getMapping\<close>, the example in the comment of
  \<^verbatim>\<open>getMathDictionary\<close> (with the closing dollar that the comment leaves out), and a
  template with a dictionary, built and populated with its own English string.
\<close>

lemma documented_mapping_example:
  "getMapping textRegExp
     (js ''simplify $2/4$'' @ LINE_BREAK @ js ''hint: the denominator is $2$'')
     (js ''hintz: da denom $2$ iz $2$'' @ LINE_BREAK @ js ''simplifz $2/4$'')
     (Some (js ''es'')) Math (Some []) = Inr [1, 1, 0]"
  by code_simp

lemma documented_dictionary_example:
  "getMathDictionary
     ([DOLLAR] @ TEXT_OPEN @ js ''red}$, $'' @ TEXT_OPEN @ js ''blue} + '' @ TEXT_OPEN
        @ js ''yellow}$'')
     ([DOLLAR] @ TEXT_OPEN @ js ''roja}$, $'' @ TEXT_OPEN @ js ''azul} + '' @ TEXT_OPEN
        @ js ''amarillo}$'')
   = [(js ''red'', Some (js ''roja'')), (js ''blue'', Some (js ''azul'')),
      (js ''yellow'', Some (js ''amarillo''))]"
  by code_simp

lemma documented_template_example:
  "createTemplate textRegExp
     (js ''Is $'' @ TEXT_OPEN @ js ''red}$ more than $'' @ TEXT_OPEN @ js ''blue}$?'')
     (js ''Es $'' @ TEXT_OPEN @ js ''rojo}$ mas que $'' @ TEXT_OPEN @ js ''azul}$?'')
     (Some (js ''es''))
   = Usable \<lparr>lines = [js ''Es '' @ MATH_PH @ js '' mas que '' @ MATH_PH @ js ''?''],
               mathMapping = [0, 1], graphieMapping = [], widgetMapping = [],
               mathDictionary = [(js ''red'', Some (js ''rojo'')),
                                 (js ''blue'', Some (js ''azul''))]\<rparr>
   \<and> populateTemplate textRegExp
         \<lparr>lines = [js ''Es '' @ MATH_PH @ js '' mas que '' @ MATH_PH @ js ''?''],
           mathMapping = [0, 1], graphieMapping = [], widgetMapping = [],
           mathDictionary = [(js ''red'', Some (js ''rojo'')),
                             (js ''blue'', Some (js ''azul''))]\<rparr>
         (js ''Is $'' @ TEXT_OPEN @ js ''red}$ more than $'' @ TEXT_OPEN @ js ''blue}$?'')
         (Some (js ''es''))
       = Inr (js ''Es $'' @ TEXT_OPEN @ js ''rojo}$ mas que $'' @ TEXT_OPEN @ js ''azul}$?'')"
  by code_simp


text \<open>
  The enumeration order of properties: array indices first, in numeric order, and no
  property for \<^verbatim>\<open>__proto__\<close>. It decides which fragment is paired with which.
\<close>

lemma property_order_example:
  "objKeys (fold (\<lambda>t obj. objSet obj t True)
     [js ''b'', js ''10'', js ''2'', js ''a'', js ''01'', js ''__proto__'', js ''2'',
      js ''4294967294'', js ''4294967295'', js ''0''] [])
   = [js ''0'', js ''2'', js ''10'', js ''4294967294'', js ''b'', js ''a'', js ''01'',
      js ''4294967295'']"
  by code_simp

lemma numeric_fragments_example:
  "getMathDictionary
     ([DOLLAR] @ TEXT_OPEN @ js ''b} '' @ TEXT_OPEN @ js ''2} '' @ TEXT_OPEN @ js ''1}$'')
     ([DOLLAR] @ TEXT_OPEN @ js ''x} '' @ TEXT_OPEN @ js ''y} '' @ TEXT_OPEN @ js ''z}$'')
   = [(js ''1'', Some (js ''x'')), (js ''2'', Some (js ''y'')), (js ''b'', Some (js ''z''))]"
  by code_simp

text \<open>
  A fragment of digits is read as a quantifier: the pattern of the fragment \<^verbatim>\<open>2\<close> matches
  the text \<^verbatim>\<open>\textt\<close> and not the fragment, and the constructor refuses the pattern of the
  fragment \<^verbatim>\<open>3,2\<close>.
\<close>

lemma quantifier_fragment_example:
  "createTemplate textRegExp ([DOLLAR] @ TEXT_OPEN @ js ''2}$'') ([DOLLAR] @ TEXT_OPEN @ js ''2}$'')
     (Some (js ''es''))
   = Usable \<lparr>lines = [MATH_PH], mathMapping = [0], graphieMapping = [], widgetMapping = [],
               mathDictionary = [(js ''2'', Some (js ''2''))]\<rparr>
   \<and> applyDictionary textRegExp [(js ''2'', Some (js ''dos''))]
         ([DOLLAR] @ TEXT_OPEN @ js ''2} '' @ BACKSLASH # js ''textt$'')
       = Inr ([DOLLAR] @ TEXT_OPEN @ js ''2} '' @ TEXT_OPEN @ js ''dos}$'')
   \<and> applyDictionary textRegExp [(js ''3,2'', Some (js ''x''))] (js ''$1$'') = Inl SyntaxError"
  by code_simp

end
